theory Spec2Isabelle
  imports Complex_Main "HOL-Library.Word" "HOL-Library.Sublist"
begin

unbundle bit_operations_syntax

section \<open>Python values used by the servers\<close>

text \<open>
  The repository holds three small tool servers written in Python:
  \<^verbatim>\<open>extensions/fs-sandbox-python/server/helpers.py\<close>,
  \<^verbatim>\<open>extensions/ffprobe-lite-python/server/helpers.py\<close> and
  \<^verbatim>\<open>examples/python-server.py\<close>.
  Python \<^verbatim>\<open>str\<close> is modelled as \<^typ>\<open>string\<close> (for text outside ASCII: its UTF-8
  bytes), \<^verbatim>\<open>bytes\<close> as a list of 8-bit words, Python's unbounded \<^verbatim>\<open>int\<close> as
  \<^typ>\<open>int\<close>, and the seconds of \<^verbatim>\<open>time.time()\<close> as \<^typ>\<open>real\<close>.
  An exception is a value: its class name (what \<^verbatim>\<open>type(e).__name__\<close> gives) and its
  message (what \<^verbatim>\<open>str(e)\<close> gives).
\<close>

type_synonym byte = "8 word"
type_synonym bytes = "byte list"

datatype exn = Raised (exn_class: string) (exn_msg: string)

datatype json =
    JNull
  | JBool bool
  | JInt int
  | JFloat real
  | JStr string
  | JList "json list"
  | JObj "(string \<times> json) list"

subsection \<open>Strings\<close>

text \<open>
  The characters for which \<^verbatim>\<open>str.isspace\<close> holds, each as its UTF-8 bytes: U+0009 to
  U+000D, U+001C to U+001F, U+0020, U+0085, U+00A0, U+1680, U+2000 to U+200A, U+2028,
  U+2029, U+202F, U+205F and U+3000.
\<close>

definition whitespace :: "string list" where
  "whitespace =
     [[CHR 0x09], [CHR 0x0A], [CHR 0x0B], [CHR 0x0C], [CHR 0x0D],
      [CHR 0x1C], [CHR 0x1D], [CHR 0x1E], [CHR 0x1F], [CHR 0x20],
      [CHR 0xC2, CHR 0x85], [CHR 0xC2, CHR 0xA0],
      [CHR 0xE1, CHR 0x9A, CHR 0x80],
      [CHR 0xE2, CHR 0x80, CHR 0x80], [CHR 0xE2, CHR 0x80, CHR 0x81], [CHR 0xE2, CHR 0x80, CHR 0x82],
      [CHR 0xE2, CHR 0x80, CHR 0x83], [CHR 0xE2, CHR 0x80, CHR 0x84], [CHR 0xE2, CHR 0x80, CHR 0x85],
      [CHR 0xE2, CHR 0x80, CHR 0x86], [CHR 0xE2, CHR 0x80, CHR 0x87], [CHR 0xE2, CHR 0x80, CHR 0x88],
      [CHR 0xE2, CHR 0x80, CHR 0x89], [CHR 0xE2, CHR 0x80, CHR 0x8A],
      [CHR 0xE2, CHR 0x80, CHR 0xA8], [CHR 0xE2, CHR 0x80, CHR 0xA9], [CHR 0xE2, CHR 0x80, CHR 0xAF],
      [CHR 0xE2, CHR 0x81, CHR 0x9F],
      [CHR 0xE3, CHR 0x80, CHR 0x80]]"

definition leading_space :: "string \<Rightarrow> string option" where
  "leading_space s = find (\<lambda>w. prefix w s) whitespace"

definition trailing_space :: "string \<Rightarrow> string option" where
  "trailing_space s = find (\<lambda>w. suffix w s) whitespace"

lemma whitespace_nonempty: "w \<in> set whitespace \<Longrightarrow> w \<noteq> []"
  by (auto simp: whitespace_def)

lemma leading_space_Some: "leading_space s = Some w \<Longrightarrow> w \<in> set whitespace \<and> prefix w s"
  by (auto simp: leading_space_def find_Some_iff)

lemma trailing_space_Some: "trailing_space s = Some w \<Longrightarrow> w \<in> set whitespace \<and> suffix w s"
  by (auto simp: trailing_space_def find_Some_iff)

text \<open>\<^verbatim>\<open>s.lstrip()\<close>, \<^verbatim>\<open>s.rstrip()\<close> and \<^verbatim>\<open>s.strip()\<close>.\<close>

function lstrip :: "string \<Rightarrow> string" where
  "lstrip s = (case leading_space s of None \<Rightarrow> s | Some w \<Rightarrow> lstrip (drop (length w) s))"
  by pat_completeness auto
termination
proof (relation "measure length")
  show "wf (measure length)" by simp
next
  fix s w :: string
  assume "leading_space s = Some w"
  then have "w \<noteq> []" and "prefix w s"
    using leading_space_Some whitespace_nonempty by blast+
  then show "(drop (length w) s, s) \<in> measure length"
    by (cases s) (auto simp: prefix_def)
qed

function rstrip :: "string \<Rightarrow> string" where
  "rstrip s = (case trailing_space s of None \<Rightarrow> s | Some w \<Rightarrow> rstrip (take (length s - length w) s))"
  by pat_completeness auto
termination
proof (relation "measure length")
  show "wf (measure length)" by simp
next
  fix s w :: string
  assume "trailing_space s = Some w"
  then have "w \<noteq> []" and "suffix w s"
    using trailing_space_Some whitespace_nonempty by blast+
  then show "(take (length s - length w) s, s) \<in> measure length"
    by (cases s) (auto simp: suffix_def)
qed

definition strip :: "string \<Rightarrow> string" where
  "strip s = rstrip (lstrip s)"

text \<open>\<^verbatim>\<open>s.split(c)\<close> for a one-character separator: the result is never empty.\<close>

fun split_on :: "char \<Rightarrow> string \<Rightarrow> string list" where
  "split_on c [] = [[]]"
| "split_on c (x # xs) =
     (if x = c then [] # split_on c xs
      else (case split_on c xs of
              [] \<Rightarrow> [[x]]
            | y # ys \<Rightarrow> (x # y) # ys))"

text \<open>\<^verbatim>\<open>sep.join(xs)\<close>.\<close>

fun join_with :: "string \<Rightarrow> string list \<Rightarrow> string" where
  "join_with sep [] = []"
| "join_with sep [x] = x"
| "join_with sep (x # y # ys) = x @ sep @ join_with sep (y # ys)"

text \<open>\<^verbatim>\<open>str(n)\<close> of an integer: decimal digits, a minus sign for negatives.\<close>

definition digit_char :: "nat \<Rightarrow> char" where
  "digit_char d = char_of (48 + d)"

fun digits_of :: "nat \<Rightarrow> string" where
  "digits_of n = (if n < 10 then [digit_char n] else digits_of (n div 10) @ [digit_char (n mod 10)])"

definition str_int :: "int \<Rightarrow> string" where
  "str_int i = (if i < 0 then CHR ''-'' # digits_of (nat (- i)) else digits_of (nat i))"

section \<open>The platform: what the servers take from the operating system and the library\<close>

subsection \<open>\<^verbatim>\<open>pathlib\<close> on POSIX\<close>

text \<open>
  A \<^verbatim>\<open>PurePosixPath\<close> is its root (empty for a relative path, one slash, or two slashes
  when the text starts with exactly two) and its segments. Parsing drops empty segments
  and single dots; it keeps \<^verbatim>\<open>..\<close> segments.
\<close>

record path =
  anchor :: string
  segs :: "string list"

definition splitroot :: "string \<Rightarrow> string \<times> string" where
  "splitroot p =
     (if take 1 p \<noteq> ''/'' then ('''', p)
      else if take 1 (drop 1 p) \<noteq> ''/'' \<or> take 1 (drop 2 p) = ''/'' then (''/'', drop 1 p)
      else (take 2 p, drop 2 p))"

definition Path :: "string \<Rightarrow> path" where
  "Path s =
     (case splitroot s of
        (r, rel) \<Rightarrow> \<lparr>anchor = r, segs = filter (\<lambda>x. x \<noteq> '''' \<and> x \<noteq> ''.'') (split_on CHR ''/'' rel)\<rparr>)"

text \<open>\<^verbatim>\<open>str(p)\<close>.\<close>

definition str_path :: "path \<Rightarrow> string" where
  "str_path p =
     (if anchor p \<noteq> '''' then anchor p @ join_with ''/'' (segs p)
      else if segs p = [] then ''.''
      else join_with ''/'' (segs p))"

text \<open>\<^verbatim>\<open>p / s\<close>: an absolute right operand replaces the left one.\<close>

definition joinpath :: "path \<Rightarrow> string \<Rightarrow> path" where
  "joinpath p s = (let q = Path s in if anchor q \<noteq> '''' then q else p\<lparr>segs := segs p @ segs q\<rparr>)"

text \<open>\<^verbatim>\<open>p.parent\<close>: the root and the empty path are their own parents.\<close>

definition parent :: "path \<Rightarrow> path" where
  "parent p = p\<lparr>segs := butlast (segs p)\<rparr>"

text \<open>
  \<^verbatim>\<open>p.relative_to(other)\<close> raises \<^verbatim>\<open>ValueError\<close> unless \<^verbatim>\<open>other\<close> is \<^verbatim>\<open>p\<close> or
  one of its lexical ancestors: the same root, and the segments of \<^verbatim>\<open>other\<close> a prefix
  of those of \<^verbatim>\<open>p\<close>. The predicate below says whether it returns.
\<close>

definition is_relative_to :: "path \<Rightarrow> path \<Rightarrow> bool" where
  "is_relative_to p other = (anchor p = anchor other \<and> prefix (segs other) (segs p))"

text \<open>
  The operating system as the servers see it. \<^verbatim>\<open>home_of u\<close> is the home directory of
  user \<^verbatim>\<open>u\<close> (the empty name is the current user), \<^const>\<open>None\<close> when it cannot be
  determined; \<^verbatim>\<open>realpath\<close> is what \<^verbatim>\<open>os.path.realpath\<close> computes: the absolute path
  with symbolic links followed and dot segments collapsed; \<^verbatim>\<open>dir_size\<close> is the
  \<^verbatim>\<open>st_size\<close> that \<^verbatim>\<open>stat\<close> reports for a directory. \<^verbatim>\<open>json_loads\<close> is
  \<^verbatim>\<open>json.loads\<close> (\<^const>\<open>None\<close> where it raises) and \<^verbatim>\<open>py_repr\<close> is Python's
  \<^verbatim>\<open>str()\<close> of a decoded value that is not a string.
\<close>

record platform =
  home_of :: "string \<Rightarrow> path option"
  realpath :: "path \<Rightarrow> path"
  dir_size :: int
  json_loads :: "string \<Rightarrow> json option"
  py_repr :: "json \<Rightarrow> string"

text \<open>
  \<^verbatim>\<open>p.expanduser()\<close>: only a relative path whose first segment starts with a tilde
  changes; it raises \<^verbatim>\<open>RuntimeError\<close> when the home directory of the user named there
  cannot be determined. \<^verbatim>\<open>Path.home()\<close> is the expansion of the tilde alone.
\<close>

definition no_home :: exn where
  "no_home = Raised ''RuntimeError'' ''Could not determine home directory.''"


definition path_home :: "platform \<Rightarrow> exn + path" where
  "path_home env = (case home_of env '''' of None \<Rightarrow> Inl no_home | Some h \<Rightarrow> Inr h)"

text \<open>
  A path with a NUL byte in a segment cannot be handed to the operating system: the call
  raises \<^verbatim>\<open>ValueError\<close> before any system call is made. \<^verbatim>\<open>p.resolve()\<close> inspects every
  segment, so it raises for such a path and otherwise returns the real path.
\<close>

definition has_nul :: "path \<Rightarrow> bool" where
  "has_nul p = list_ex (\<lambda>s. CHR 0x00 \<in> set s) (segs p)"

definition null_byte :: exn where
  "null_byte = Raised ''ValueError'' ''embedded null byte''"

definition path_resolve :: "platform \<Rightarrow> path \<Rightarrow> exn + path" where
  "path_resolve env p = (if has_nul p then Inl null_byte else Inr (realpath env p))"

subsection \<open>Files\<close>

text \<open>
  The file system is a table from resolved paths to nodes; every access goes through the
  platform's name resolution. The world also records the system calls made and the
  audit lines printed, oldest first.
\<close>

datatype node = File bytes | Dir

text \<open>
  One line of the audit output on standard error: the dictionary \<^verbatim>\<open>log_entry\<close> that
  \<^verbatim>\<open>audit_log\<close> of the example server prints (the timestamp as the clock reading it is
  formatted from).
\<close>

record log_entry =
  timestamp :: real
  tool :: string
  outcome :: string
  duration_ms :: int
  request_number :: int
  details :: "(string \<times> string) list option"

type_synonym filesystem = "(path \<times> node) list"

datatype syscall =
    Stat path
  | ReadBytes path
  | Mkdir path
  | WriteBytes path bytes
  | IsDir path
  | IterDir path

record world =
  files :: filesystem
  syscalls :: "syscall list"
  stderr :: "log_entry list"

definition lookup :: "platform \<Rightarrow> world \<Rightarrow> path \<Rightarrow> node option" where
  "lookup env w p = (if has_nul p then None else map_of (files w) (realpath env p))"

definition called :: "syscall \<Rightarrow> world \<Rightarrow> world" where
  "called c w = w\<lparr>syscalls := syscalls w @ [c]\<rparr>"

definition os_error :: "string \<Rightarrow> string \<Rightarrow> path \<Rightarrow> exn" where
  "os_error cls what p = Raised cls (what @ '': '' @ str_path p)"

text \<open>\<^verbatim>\<open>p.stat().st_size\<close>.\<close>

definition os_stat :: "platform \<Rightarrow> world \<Rightarrow> path \<Rightarrow> (exn + int) \<times> world" where
  "os_stat env w p =
     (if has_nul p then (Inl null_byte, w) else
      case lookup env w p of
        None \<Rightarrow> (Inl (os_error ''FileNotFoundError'' ''[Errno 2] No such file or directory'' p), called (Stat p) w)
      | Some (File c) \<Rightarrow> (Inr (int (length c)), called (Stat p) w)
      | Some Dir \<Rightarrow> (Inr (dir_size env), called (Stat p) w))"

text \<open>\<^verbatim>\<open>p.read_bytes()\<close>.\<close>

definition os_read_bytes :: "platform \<Rightarrow> world \<Rightarrow> path \<Rightarrow> (exn + bytes) \<times> world" where
  "os_read_bytes env w p =
     (if has_nul p then (Inl null_byte, w) else
      case lookup env w p of
        None \<Rightarrow> (Inl (os_error ''FileNotFoundError'' ''[Errno 2] No such file or directory'' p), called (ReadBytes p) w)
      | Some (File c) \<Rightarrow> (Inr c, called (ReadBytes p) w)
      | Some Dir \<Rightarrow> (Inl (os_error ''IsADirectoryError'' ''[Errno 21] Is a directory'' p), called (ReadBytes p) w))"

section \<open>\<^verbatim>\<open>fs-sandbox-python/server/helpers.py\<close>\<close>

text \<open>
  \<^verbatim>\<open>
  def parse_allowed(raw: str | None) -> list[str]:
    if not raw: return []
    try:
      arr = json.loads(raw)
      if isinstance(arr, list): return [str(x) for x in arr]
    except Exception: pass
    return [s.strip() for s in raw.split(",") if s.strip()]
  \<close>
\<close>

definition comma_split :: "string \<Rightarrow> string list" where
  "comma_split raw = map strip (filter (\<lambda>s. strip s \<noteq> []) (split_on CHR '','' raw))"

definition py_str :: "platform \<Rightarrow> json \<Rightarrow> string" where
  "py_str env v = (case v of JStr s \<Rightarrow> s | _ \<Rightarrow> py_repr env v)"

definition parse_allowed :: "platform \<Rightarrow> string option \<Rightarrow> string list" where
  "parse_allowed env raw =
     (case raw of
        None \<Rightarrow> []
      | Some r \<Rightarrow>
          if r = [] then []
          else (case json_loads env r of
                  Some (JList arr) \<Rightarrow> map (py_str env) arr
                | _ \<Rightarrow> comma_split r))"

text \<open>
  \<^verbatim>\<open>
  def resolve(allowed: list[str], requested: str) -> str:
    abs_path = str(Path(requested).expanduser().resolve())
    for base in allowed:
      base_abs = str(Path(base).expanduser().resolve())
      if abs_path == base_abs or abs_path.startswith(base_abs + os.sep):
        return abs_path
    raise SandboxError("Path not within allowed directories")
  \<close>
\<close>





text \<open>
  \<^verbatim>\<open>
  def read_capped(p: str, max_mb: int = 8) -> bytes:
    size = Path(p).stat().st_size
    cap = max(1, max_mb) * 1024 * 1024
    if size > cap:
      raise SandboxError(f"File exceeds limit: {size} > {cap}")
    return Path(p).read_bytes()
  \<close>
\<close>

definition read_cap :: "int \<Rightarrow> int" where
  "read_cap max_mb = max 1 max_mb * 1024 * 1024"

definition read_capped :: "platform \<Rightarrow> world \<Rightarrow> string \<Rightarrow> int \<Rightarrow> (exn + bytes) \<times> world" where
  "read_capped env w p max_mb =
     (case os_stat env w (Path p) of
        (Inl e, w1) \<Rightarrow> (Inl e, w1)
      | (Inr sz, w1) \<Rightarrow>
          (let cap = read_cap max_mb in
           if sz > cap then
             (Inl (Raised ''SandboxError'' (''File exceeds limit: '' @ str_int sz @ '' > '' @ str_int cap)), w1)
           else os_read_bytes env w1 (Path p)))"

section \<open>\<^verbatim>\<open>ffprobe-lite-python/server/helpers.py\<close>\<close>

text \<open>
  \<^verbatim>\<open>
  def parse_allowed(raw: str | None) -> list[str]:
    if not raw: return []
    try:
      arr = json.loads(raw); return arr if isinstance(arr, list) else []
    except Exception:
      return [s.strip() for s in raw.split(",") if s.strip()]
  \<close>
  The decoded array is returned as it is, so the result is a list of decoded values.
\<close>

definition ff_parse_allowed :: "platform \<Rightarrow> string option \<Rightarrow> json list" where
  "ff_parse_allowed env raw =
     (case raw of
        None \<Rightarrow> []
      | Some r \<Rightarrow>
          if r = [] then []
          else (case json_loads env r of
                  Some (JList arr) \<Rightarrow> arr
                | Some _ \<Rightarrow> []
                | None \<Rightarrow> map JStr (comma_split r)))"



section \<open>Library functions of \<^verbatim>\<open>examples/python-server.py\<close>\<close>

subsection \<open>\<^verbatim>\<open>hashlib.sha256\<close>\<close>

text \<open>
  SHA-256 on 32-bit words. The round constants and the initial hash value are written in
  decimal.
\<close>

type_synonym u32 = "32 word"

definition rotr :: "nat \<Rightarrow> u32 \<Rightarrow> u32" where
  "rotr n x = drop_bit n x OR push_bit (32 - n) x"

definition ssig0 :: "u32 \<Rightarrow> u32" where
  "ssig0 x = rotr 7 x XOR rotr 18 x XOR drop_bit 3 x"

definition ssig1 :: "u32 \<Rightarrow> u32" where
  "ssig1 x = rotr 17 x XOR rotr 19 x XOR drop_bit 10 x"

definition bsig0 :: "u32 \<Rightarrow> u32" where
  "bsig0 x = rotr 2 x XOR rotr 13 x XOR rotr 22 x"

definition bsig1 :: "u32 \<Rightarrow> u32" where
  "bsig1 x = rotr 6 x XOR rotr 11 x XOR rotr 25 x"

definition ch :: "u32 \<Rightarrow> u32 \<Rightarrow> u32 \<Rightarrow> u32" where
  "ch x y z = (x AND y) XOR (NOT x AND z)"

definition maj :: "u32 \<Rightarrow> u32 \<Rightarrow> u32 \<Rightarrow> u32" where
  "maj x y z = (x AND y) XOR (x AND z) XOR (y AND z)"

definition sha_k :: "u32 list" where
  "sha_k =
    [1116352408, 1899447441, 3049323471, 3921009573, 961987163, 1508970993, 2453635748, 2870763221,
     3624381080, 310598401, 607225278, 1426881987, 1925078388, 2162078206, 2614888103, 3248222580,
     3835390401, 4022224774, 264347078, 604807628, 770255983, 1249150122, 1555081692, 1996064986,
     2554220882, 2821834349, 2952996808, 3210313671, 3336571891, 3584528711, 113926993, 338241895,
     666307205, 773529912, 1294757372, 1396182291, 1695183700, 1986661051, 2177026350, 2456956037,
     2730485921, 2820302411, 3259730800, 3345764771, 3516065817, 3600352804, 4094571909, 275423344,
     430227734, 506948616, 659060556, 883997877, 958139571, 1322822218, 1537002063, 1747873779,
     1955562222, 2024104815, 2227730452, 2361852424, 2428436474, 2756734187, 3204031479, 3329325298]"

type_synonym sha_state = "u32 \<times> u32 \<times> u32 \<times> u32 \<times> u32 \<times> u32 \<times> u32 \<times> u32"

definition sha_h0 :: sha_state where
  "sha_h0 = (1779033703, 3144134277, 1013904242, 2773480762, 1359893119, 2600822924, 528734635, 1541459225)"

text \<open>The message schedule, built newest word first: sixteen block words, then 48 derived ones.\<close>

definition extend :: "u32 list \<Rightarrow> u32 list" where
  "extend ws = (ssig1 (ws ! 1) + ws ! 6 + ssig0 (ws ! 14) + ws ! 15) # ws"

definition schedule :: "u32 list \<Rightarrow> u32 list" where
  "schedule block = rev (foldl (\<lambda>ws _. extend ws) (rev block) (drop 16 sha_k))"

definition round256 :: "sha_state \<Rightarrow> u32 \<times> u32 \<Rightarrow> sha_state" where
  "round256 s kw =
     (case s of (a, b, c, d, e, f, g, h) \<Rightarrow>
      case kw of (k, w) \<Rightarrow>
        (let t1 = h + bsig1 e + ch e f g + k + w;
             t2 = bsig0 a + maj a b c
         in (t1 + t2, a, b, c, d + t1, e, f, g)))"

definition add_state :: "sha_state \<Rightarrow> sha_state \<Rightarrow> sha_state" where
  "add_state s t =
     (case s of (a, b, c, d, e, f, g, h) \<Rightarrow>
      case t of (a', b', c', d', e', f', g', h') \<Rightarrow>
        (a + a', b + b', c + c', d + d', e + e', f + f', g + g', h + h'))"

definition compress :: "sha_state \<Rightarrow> u32 list \<Rightarrow> sha_state" where
  "compress hs block = add_state hs (foldl round256 hs (zip sha_k (schedule block)))"

fun be32 :: "bytes \<Rightarrow> u32 list" where
  "be32 (a # b # c # d # rest) =
     (push_bit 24 (ucast a) OR push_bit 16 (ucast b) OR push_bit 8 (ucast c) OR ucast d) # be32 rest"
| "be32 _ = []"

fun chunks16 :: "u32 list \<Rightarrow> u32 list list" where
  "chunks16 [] = []"
| "chunks16 (w # ws) = take 16 (w # ws) # chunks16 (drop 15 ws)"

definition be64 :: "nat \<Rightarrow> bytes" where
  "be64 n = map (\<lambda>i. of_nat (n div 2 ^ (8 * (7 - i)) mod 256)) [0..<8]"

definition sha_pad :: "bytes \<Rightarrow> bytes" where
  "sha_pad m = m @ [0x80] @ replicate ((119 - length m mod 64) mod 64) 0 @ be64 (8 * length m)"

definition sha256 :: "bytes \<Rightarrow> sha_state" where
  "sha256 m = foldl compress sha_h0 (chunks16 (be32 (sha_pad m)))"

definition hex_digit :: "nat \<Rightarrow> char" where
  "hex_digit n = ''0123456789abcdef'' ! (n mod 16)"

definition hex32 :: "u32 \<Rightarrow> string" where
  "hex32 w = map (\<lambda>i. hex_digit (unat (drop_bit (28 - 4 * i) w))) [0, 1, 2, 3, 4, 5, 6, 7]"

text \<open>\<^verbatim>\<open>hashlib.sha256(m).hexdigest()\<close>: 64 hexadecimal digits.\<close>

definition hexdigest :: "sha_state \<Rightarrow> string" where
  "hexdigest s = (case s of (a, b, c, d, e, f, g, h) \<Rightarrow> concat (map hex32 [a, b, c, d, e, f, g, h]))"

text \<open>\<^verbatim>\<open>s.encode()\<close>: the UTF-8 bytes of a string.\<close>

definition encode :: "string \<Rightarrow> bytes" where
  "encode s = map of_char s"

definition decode :: "bytes \<Rightarrow> string" where
  "decode bs = map (\<lambda>b. char_of (unat b)) bs"

subsection \<open>\<^verbatim>\<open>base64\<close>\<close>

definition b64_char :: "nat \<Rightarrow> char" where
  "b64_char n = ''ABCDEFGHIJKLMNOPQRSTUVWXYZabcdefghijklmnopqrstuvwxyz0123456789+/'' ! (n mod 64)"

text \<open>\<^verbatim>\<open>base64.b64encode(data).decode("ascii")\<close>.\<close>

fun b64encode :: "bytes \<Rightarrow> string" where
  "b64encode [] = []"
| "b64encode [a] =
     [b64_char (unat a div 4), b64_char (unat a mod 4 * 16), CHR ''='', CHR ''='']"
| "b64encode [a, b] =
     [b64_char (unat a div 4), b64_char (unat a mod 4 * 16 + unat b div 16),
      b64_char (unat b mod 16 * 4), CHR ''='']"
| "b64encode (a # b # c # rest) =
     [b64_char (unat a div 4), b64_char (unat a mod 4 * 16 + unat b div 16),
      b64_char (unat b mod 16 * 4 + unat c div 64), b64_char (unat c mod 64)] @ b64encode rest"

definition b64_index :: "char \<Rightarrow> nat option" where
  "b64_index c =
     (let n = (of_char c :: nat) in
      if 65 \<le> n \<and> n \<le> 90 then Some (n - 65)
      else if 97 \<le> n \<and> n \<le> 122 then Some (n - 71)
      else if 48 \<le> n \<and> n \<le> 57 then Some (n + 4)
      else if n = 43 then Some 62
      else if n = 47 then Some 63
      else None)"

text \<open>
  \<^verbatim>\<open>binascii.a2b_base64\<close> as \<^verbatim>\<open>base64.b64decode(s)\<close> calls it (no validation):
  characters outside the alphabet are skipped; a pad character ends the input once the
  current group has two data characters and enough pads; input that ends inside a group
  raises \<^verbatim>\<open>binascii.Error\<close>. The arguments are the position in the group, the bits
  left over, the pads seen, and the bytes produced.
\<close>

fun a2b_base64 :: "nat \<Rightarrow> nat \<Rightarrow> nat \<Rightarrow> bytes \<Rightarrow> string \<Rightarrow> exn + bytes" where
  "a2b_base64 quad_pos leftchar pads out [] =
     (if quad_pos = 0 then Inr out
      else if quad_pos = 1 then
        Inl (Raised ''Error'' (''Invalid base64-encoded string: number of data characters (''
               @ str_int (int (length out div 3 * 4 + 1)) @ '') cannot be 1 more than a multiple of 4''))
      else Inl (Raised ''Error'' ''Incorrect padding''))"
| "a2b_base64 quad_pos leftchar pads out (c # cs) =
     (if c = CHR ''='' then
        (if 2 \<le> quad_pos \<and> 4 \<le> quad_pos + (pads + 1) then Inr out
         else a2b_base64 quad_pos leftchar (if 2 \<le> quad_pos then pads + 1 else pads) out cs)
      else
        (case b64_index c of
           None \<Rightarrow> a2b_base64 quad_pos leftchar pads out cs
         | Some v \<Rightarrow>
             if quad_pos = 0 then a2b_base64 1 v 0 out cs
             else if quad_pos = 1 then a2b_base64 2 (v mod 16) 0 (out @ [of_nat (leftchar * 4 + v div 16)]) cs
             else if quad_pos = 2 then a2b_base64 3 (v mod 4) 0 (out @ [of_nat (leftchar * 16 + v div 4)]) cs
             else a2b_base64 0 0 0 (out @ [of_nat (leftchar * 64 + v)]) cs))"

definition b64decode :: "string \<Rightarrow> exn + bytes" where
  "b64decode s =
     (if list_all (\<lambda>c. (of_char c :: nat) < 128) s then a2b_base64 0 0 0 [] s
      else Inl (Raised ''ValueError'' ''string argument should contain only ASCII characters''))"

subsection \<open>Text files\<close>

text \<open>
  The strict UTF-8 decoder accepts exactly the well-formed sequences; the first argument
  lists the ranges the pending continuation bytes must lie in.
\<close>

fun utf8_scan :: "(nat \<times> nat) list \<Rightarrow> nat list \<Rightarrow> bool" where
  "utf8_scan [] [] = True"
| "utf8_scan (r # rs) [] = False"
| "utf8_scan ((lo, hi) # rs) (b # bs) = (lo \<le> b \<and> b \<le> hi \<and> utf8_scan rs bs)"
| "utf8_scan [] (b # bs) =
     (if b < 128 then utf8_scan [] bs
      else if 194 \<le> b \<and> b \<le> 223 then utf8_scan [(128, 191)] bs
      else if b = 224 then utf8_scan [(160, 191), (128, 191)] bs
      else if (225 \<le> b \<and> b \<le> 236) \<or> b = 238 \<or> b = 239 then utf8_scan [(128, 191), (128, 191)] bs
      else if b = 237 then utf8_scan [(128, 159), (128, 191)] bs
      else if b = 240 then utf8_scan [(144, 191), (128, 191), (128, 191)] bs
      else if 241 \<le> b \<and> b \<le> 243 then utf8_scan [(128, 191), (128, 191), (128, 191)] bs
      else if b = 244 then utf8_scan [(128, 143), (128, 191), (128, 191)] bs
      else False)"

definition utf8_valid :: "bytes \<Rightarrow> bool" where
  "utf8_valid bs = utf8_scan [] (map unat bs)"

text \<open>Text mode reads with universal newlines: CR LF and a lone CR become LF.\<close>

fun universal_newlines :: "bool \<Rightarrow> string \<Rightarrow> string" where
  "universal_newlines after_cr [] = []"
| "universal_newlines after_cr (c # cs) =
     (if c = CHR 0x0D then CHR 0x0A # universal_newlines True cs
      else if c = CHR 0x0A \<and> after_cr then universal_newlines False cs
      else c # universal_newlines False cs)"

text \<open>\<^verbatim>\<open>len(s)\<close> counts code points: every byte of the UTF-8 text but the continuation bytes.\<close>

definition py_len :: "string \<Rightarrow> nat" where
  "py_len s = length (filter (\<lambda>c. \<not> (128 \<le> (of_char c :: nat) \<and> (of_char c :: nat) < 192)) s)"

text \<open>\<^verbatim>\<open>p.read_text(encoding="utf-8")\<close>.\<close>

definition os_read_text :: "platform \<Rightarrow> world \<Rightarrow> path \<Rightarrow> (exn + string) \<times> world" where
  "os_read_text env w p =
     (case os_read_bytes env w p of
        (Inl e, w1) \<Rightarrow> (Inl e, w1)
      | (Inr c, w1) \<Rightarrow>
          if utf8_valid c then (Inr (universal_newlines False (decode c)), w1)
          else (Inl (Raised ''UnicodeDecodeError'' ''utf-8 codec can not decode the file''), w1))"

subsection \<open>Directories and writing\<close>

definition put_node :: "path \<Rightarrow> node \<Rightarrow> filesystem \<Rightarrow> filesystem" where
  "put_node q n fs = filter (\<lambda>kv. fst kv \<noteq> q) fs @ [(q, n)]"

text \<open>\<^verbatim>\<open>p.is_dir()\<close>: false, without a system call, for a path with a NUL byte.\<close>

definition os_is_dir :: "platform \<Rightarrow> world \<Rightarrow> path \<Rightarrow> bool \<times> world" where
  "os_is_dir env w p =
     (if has_nul p then (False, w) else (lookup env w p = Some Dir, called (IsDir p) w))"

text \<open>
  \<^verbatim>\<open>os.mkdir(p)\<close>: fails when the name exists, when the parent is missing and when
  the parent is a file; otherwise it creates the directory.
\<close>

definition os_mkdir :: "platform \<Rightarrow> world \<Rightarrow> path \<Rightarrow> exn option \<times> world" where
  "os_mkdir env w p =
     (if has_nul p then (Some null_byte, w) else
      let q = realpath env p; w1 = called (Mkdir p) w in
      case map_of (files w) q of
        Some _ \<Rightarrow> (Some (os_error ''FileExistsError'' ''[Errno 17] File exists'' p), w1)
      | None \<Rightarrow>
          (case (if segs q = [] then None else map_of (files w) (parent q)) of
             None \<Rightarrow> (Some (os_error ''FileNotFoundError'' ''[Errno 2] No such file or directory'' p), w1)
           | Some (File _) \<Rightarrow> (Some (os_error ''NotADirectoryError'' ''[Errno 20] Not a directory'' p), w1)
           | Some Dir \<Rightarrow> (None, w1\<lparr>files := put_node q Dir (files w)\<rparr>)))"

text \<open>
  \<^verbatim>\<open>p.mkdir(exist_ok=True)\<close> without \<^verbatim>\<open>parents\<close>, as pathlib runs it after the
  parents were made.
\<close>

definition mkdir_exist_ok :: "platform \<Rightarrow> world \<Rightarrow> path \<Rightarrow> exn option \<times> world" where
  "mkdir_exist_ok env w p =
     (case os_mkdir env w p of
        (None, w1) \<Rightarrow> (None, w1)
      | (Some e, w1) \<Rightarrow>
          if exn_class e = ''FileNotFoundError'' \<or> exn_class e = ''ValueError'' then (Some e, w1)
          else (case os_is_dir env w1 p of
                  (True, w2) \<Rightarrow> (None, w2)
                | (False, w2) \<Rightarrow> (Some e, w2)))"

text \<open>
  \<^verbatim>\<open>p.mkdir(parents=True, exist_ok=True)\<close>:
  \<^verbatim>\<open>
  try:
      os.mkdir(self, mode)
  except FileNotFoundError:
      if not parents or self.parent == self:
          raise
      self.parent.mkdir(parents=True, exist_ok=True)
      self.mkdir(mode, parents=False, exist_ok=exist_ok)
  except OSError:
      if not exist_ok or not self.is_dir():
          raise
  \<close>
  A \<^verbatim>\<open>ValueError\<close> (NUL byte) is neither and leaves \<^verbatim>\<open>mkdir\<close> at once.
\<close>

function mkdir_parents :: "platform \<Rightarrow> world \<Rightarrow> path \<Rightarrow> exn option \<times> world" where
  "mkdir_parents env w p =
     (case os_mkdir env w p of
        (None, w1) \<Rightarrow> (None, w1)
      | (Some e, w1) \<Rightarrow>
          if exn_class e = ''FileNotFoundError'' then
            (if segs p = [] then (Some e, w1)
             else (case mkdir_parents env w1 (parent p) of
                     (Some e', w2) \<Rightarrow> (Some e', w2)
                   | (None, w2) \<Rightarrow> mkdir_exist_ok env w2 p))
          else if exn_class e = ''ValueError'' then (Some e, w1)
          else (case os_is_dir env w1 p of
                  (True, w2) \<Rightarrow> (None, w2)
                | (False, w2) \<Rightarrow> (Some e, w2)))"
  by pat_completeness auto
termination
  by (relation "measure (\<lambda>(env, w, p). length (segs p))") (auto simp: parent_def)

text \<open>
  \<^verbatim>\<open>p.write_bytes(data)\<close> (and \<^verbatim>\<open>write_text\<close> on POSIX): the file is created or
  replaced as a whole.
\<close>

definition os_write_bytes :: "platform \<Rightarrow> world \<Rightarrow> path \<Rightarrow> bytes \<Rightarrow> exn option \<times> world" where
  "os_write_bytes env w p data =
     (if has_nul p then (Some null_byte, w) else
      let q = realpath env p; w1 = called (WriteBytes p data) w in
      case map_of (files w) q of
        Some Dir \<Rightarrow> (Some (os_error ''IsADirectoryError'' ''[Errno 21] Is a directory'' p), w1)
      | _ \<Rightarrow>
          (case (if segs q = [] then None else map_of (files w) (parent q)) of
             None \<Rightarrow> (Some (os_error ''FileNotFoundError'' ''[Errno 2] No such file or directory'' p), w1)
           | Some (File _) \<Rightarrow> (Some (os_error ''NotADirectoryError'' ''[Errno 20] Not a directory'' p), w1)
           | Some Dir \<Rightarrow> (None, w1\<lparr>files := put_node q (File data) (files w)\<rparr>)))"

text \<open>
  \<^verbatim>\<open>p.iterdir()\<close> with \<^verbatim>\<open>item.name\<close> and \<^verbatim>\<open>item.is_dir()\<close> of every child, in the
  order of the table.
\<close>

definition os_iterdir :: "platform \<Rightarrow> world \<Rightarrow> path \<Rightarrow> (exn + (string \<times> bool) list) \<times> world" where
  "os_iterdir env w p =
     (if has_nul p then (Inl null_byte, w) else
      let q = realpath env p; w1 = called (IterDir p) w in
      case map_of (files w) q of
        None \<Rightarrow> (Inl (os_error ''FileNotFoundError'' ''[Errno 2] No such file or directory'' p), w1)
      | Some (File _) \<Rightarrow> (Inl (os_error ''NotADirectoryError'' ''[Errno 20] Not a directory'' p), w1)
      | Some Dir \<Rightarrow>
          (Inr (map (\<lambda>kv. (last (segs (fst kv)), snd kv = Dir))
                  (filter (\<lambda>kv. segs (fst kv) \<noteq> [] \<and> parent (fst kv) = q) (files w))), w1))"

section \<open>\<^verbatim>\<open>examples/python-server.py\<close>\<close>

text \<open>
  \<^verbatim>\<open>CONFIG\<close> (read once from the process environment; \<^verbatim>\<open>allowed_directories\<close> is the
  comma split of \<^verbatim>\<open>ALLOWED_DIRS\<close>, default \<^verbatim>\<open>~/Desktop\<close>) and \<^verbatim>\<open>ServerState\<close>.
  \<^verbatim>\<open>rate_limit_window\<close> is a \<^verbatim>\<open>defaultdict(list)\<close>: a total function whose value at
  a client never seen is the empty list.
\<close>

record config =
  allowed_directories :: "string list"
  max_file_size :: int
  rate_limit :: int

record server_state =
  start_time :: real
  request_count :: int
  rate_limit_window :: "string \<Rightarrow> real list"

type_synonym machine = "server_state \<times> world"

subsection \<open>Input validation models\<close>

text \<open>
  \<^verbatim>\<open>ReadFileParams(**arguments)\<close> and its siblings: the arguments must be a mapping;
  \<^verbatim>\<open>path\<close> (and \<^verbatim>\<open>content\<close>) are required strings with a maximal length;
  \<^verbatim>\<open>encoding\<close> is \<^verbatim>\<open>utf8\<close> (the default) or \<^verbatim>\<open>base64\<close>; other keys are ignored.
\<close>

definition validation_error :: "string \<Rightarrow> exn" where
  "validation_error model = Raised ''ValidationError'' (''validation error for '' @ model)"

definition not_a_mapping :: exn where
  "not_a_mapping = Raised ''TypeError'' ''argument after ** must be a mapping''"

definition str_field :: "nat \<Rightarrow> (string \<times> json) list \<Rightarrow> string \<Rightarrow> string option" where
  "str_field max_length kw k =
     (case map_of kw k of
        Some (JStr s) \<Rightarrow> if py_len s \<le> max_length then Some s else None
      | _ \<Rightarrow> None)"

definition encoding_field :: "(string \<times> json) list \<Rightarrow> string option" where
  "encoding_field kw =
     (case map_of kw ''encoding'' of
        None \<Rightarrow> Some ''utf8''
      | Some (JStr s) \<Rightarrow> if s = ''utf8'' \<or> s = ''base64'' then Some s else None
      | Some _ \<Rightarrow> None)"

definition ReadFileParams :: "json \<Rightarrow> exn + string \<times> string" where
  "ReadFileParams arguments =
     (case arguments of
        JObj kw \<Rightarrow>
          (case (str_field 4096 kw ''path'', encoding_field kw) of
             (Some p, Some enc) \<Rightarrow> Inr (p, enc)
           | _ \<Rightarrow> Inl (validation_error ''ReadFileParams''))
      | _ \<Rightarrow> Inl not_a_mapping)"

definition WriteFileParams :: "json \<Rightarrow> exn + string \<times> string \<times> string" where
  "WriteFileParams arguments =
     (case arguments of
        JObj kw \<Rightarrow>
          (case (str_field 4096 kw ''path'', str_field (10 * 1024 * 1024) kw ''content'', encoding_field kw) of
             (Some p, Some content, Some enc) \<Rightarrow> Inr (p, content, enc)
           | _ \<Rightarrow> Inl (validation_error ''WriteFileParams''))
      | _ \<Rightarrow> Inl not_a_mapping)"

definition ListDirectoryParams :: "json \<Rightarrow> exn + string" where
  "ListDirectoryParams arguments =
     (case arguments of
        JObj kw \<Rightarrow>
          (case str_field 4096 kw ''path'' of
             Some p \<Rightarrow> Inr p
           | None \<Rightarrow> Inl (validation_error ''ListDirectoryParams''))
      | _ \<Rightarrow> Inl not_a_mapping)"

subsection \<open>Security helpers\<close>

text \<open>
  \<^verbatim>\<open>
  def expand_path(filepath: str) -> Path:
      """Expand user paths and resolve to absolute path."""
      if filepath.startswith("~/"):
          return Path.home() / filepath[2:]
      return Path(filepath).resolve()
  \<close>
\<close>

definition expand_path :: "platform \<Rightarrow> string \<Rightarrow> exn + path" where
  "expand_path env filepath =
     (if prefix ''~/'' filepath then
        (case path_home env of
           Inl e \<Rightarrow> Inl e
         | Inr home \<Rightarrow> Inr (joinpath home (drop 2 filepath)))
      else path_resolve env (Path filepath))"

text \<open>
  \<^verbatim>\<open>
  def validate_path(requested_path: str) -> Path:
      """Validate that path is within allowed directories."""
      resolved = expand_path(requested_path)
      allowed_paths = [expand_path(d) for d in CONFIG["allowed_directories"]]
      for allowed_path in allowed_paths:
          try:
              resolved.relative_to(allowed_path)
              return resolved
          except ValueError:
              continue
      raise PermissionError(f"Path outside sandbox: {requested_path}")
  \<close>
\<close>

text \<open>The list comprehension: it stops at the first directory whose expansion raises.\<close>

fun expand_all :: "platform \<Rightarrow> string list \<Rightarrow> exn + path list" where
  "expand_all env [] = Inr []"
| "expand_all env (d # ds) =
     (case expand_path env d of
        Inl e \<Rightarrow> Inl e
      | Inr a \<Rightarrow>
          (case expand_all env ds of
             Inl e \<Rightarrow> Inl e
           | Inr rest \<Rightarrow> Inr (a # rest)))"

fun validate_loop :: "string \<Rightarrow> path \<Rightarrow> path list \<Rightarrow> exn + path" where
  "validate_loop requested_path resolved [] =
     Inl (Raised ''PermissionError'' (''Path outside sandbox: '' @ requested_path))"
| "validate_loop requested_path resolved (allowed_path # rest) =
     (if is_relative_to resolved allowed_path then Inr resolved
      else validate_loop requested_path resolved rest)"

definition validate_path :: "platform \<Rightarrow> config \<Rightarrow> string \<Rightarrow> exn + path" where
  "validate_path env cfg requested_path =
     (case expand_path env requested_path of
        Inl e \<Rightarrow> Inl e
      | Inr resolved \<Rightarrow>
          (case expand_all env (allowed_directories cfg) of
             Inl e \<Rightarrow> Inl e
           | Inr allowed_paths \<Rightarrow> validate_loop requested_path resolved allowed_paths))"

text \<open>
  \<^verbatim>\<open>
  def check_rate_limit(client_id: str = "default") -> None:
      now = time.time()
      window_start = now - 60  # 1 minute window
      requests = state.rate_limit_window[client_id]
      requests = [t for t in requests if t > window_start]
      if len(requests) >= CONFIG["rate_limit"]:
          raise Exception("Rate limit exceeded. Try again later.")
      requests.append(now)
      state.rate_limit_window[client_id] = requests
  \<close>
\<close>

definition pruned :: "real \<Rightarrow> real list \<Rightarrow> real list" where
  "pruned now requests = filter (\<lambda>t. t > now - 60) requests"

definition rate_limited :: exn where
  "rate_limited = Raised ''Exception'' ''Rate limit exceeded. Try again later.''"

definition check_rate_limit :: "config \<Rightarrow> real \<Rightarrow> string \<Rightarrow> server_state \<Rightarrow> exn + server_state" where
  "check_rate_limit cfg now client_id st =
     (let requests = pruned now (rate_limit_window st client_id) in
      if int (length requests) \<ge> rate_limit cfg then Inl rate_limited
      else Inr (st\<lparr>rate_limit_window := (rate_limit_window st)(client_id := requests @ [now])\<rparr>))"

text \<open>
  \<^verbatim>\<open>
  def audit_log(tool, outcome, details=None) -> None:
      state.request_count += 1
      log_entry = {
          "timestamp": datetime.utcnow().isoformat(),
          "tool": tool,
          "outcome": outcome,
          "duration_ms": int((time.time() - state.start_time) * 1000),
          "request_number": state.request_count,
      }
      if details:
          safe_details = {}
          if "error_code" in details:
              safe_details["error_code"] = details["error_code"]
          if "path" in details:
              path_hash = hashlib.sha256(details["path"].encode()).hexdigest()[:8]
              safe_details["path_hash"] = path_hash
          log_entry["details"] = safe_details
      print(json.dumps(log_entry), file=sys.stderr)
  \<close>
  A dictionary of details is the list of its items. \<^verbatim>\<open>int(x)\<close> truncates towards zero.
\<close>

definition py_int :: "real \<Rightarrow> int" where
  "py_int x = (if 0 \<le> x then \<lfloor>x\<rfloor> else \<lceil>x\<rceil>)"

definition path_hash :: "string \<Rightarrow> string" where
  "path_hash p = take 8 (hexdigest (sha256 (encode p)))"

definition safe_details :: "(string \<times> string) list \<Rightarrow> (string \<times> string) list" where
  "safe_details d =
     (case map_of d ''error_code'' of None \<Rightarrow> [] | Some c \<Rightarrow> [(''error_code'', c)]) @
     (case map_of d ''path'' of None \<Rightarrow> [] | Some p \<Rightarrow> [(''path_hash'', path_hash p)])"

definition audit_log ::
  "real \<Rightarrow> string \<Rightarrow> string \<Rightarrow> (string \<times> string) list option \<Rightarrow> machine \<Rightarrow> machine" where
  "audit_log now tname oc det sw =
     (case sw of (st, w) \<Rightarrow>
        (let st1 = st\<lparr>request_count := request_count st + 1\<rparr>;
             entry = \<lparr>timestamp = now, tool = tname, outcome = oc,
                      duration_ms = py_int ((now - start_time st1) * 1000),
                      request_number = request_count st1,
                      details = (case det of
                                   None \<Rightarrow> None
                                 | Some d \<Rightarrow> if d = [] then None else Some (safe_details d))\<rparr>
         in (st1, w\<lparr>stderr := stderr w @ [entry]\<rparr>)))"

subsection \<open>The tools\<close>

text \<open>
  A tool returns one text content: plain text, or \<^verbatim>\<open>json.dumps(result, indent=2)\<close> of
  a value (the serialisation itself is not modelled).
\<close>

datatype text_content = Plain string | Dumps json

definition health_check :: "real \<Rightarrow> server_state \<Rightarrow> json" where
  "health_check now st =
     JObj [(''status'', JStr ''ok''), (''version'', JStr ''1.0.0''),
           (''uptime_seconds'', JInt (py_int (now - start_time st))),
           (''memory_mb'', JInt 0), (''active_operations'', JInt 0),
           (''request_count'', JInt (request_count st))]"

definition described :: "string \<Rightarrow> string \<Rightarrow> json" where
  "described n d = JObj [(''name'', JStr n), (''description'', JStr d)]"

definition capabilities :: "config \<Rightarrow> json" where
  "capabilities cfg =
     JObj [(''tools'', JList
              [described ''health_check'' ''Check server health'',
               described ''capabilities'' ''List server capabilities'',
               described ''read_file_sandboxed'' ''Read file within allowed directories'',
               described ''write_file_sandboxed'' ''Write file within allowed directories'',
               described ''list_directory'' ''List directory contents'']),
           (''prompts'', JList
              [JObj [(''name'', JStr ''analyze_file''),
                     (''description'', JStr ''Analyze a file and provide insights''),
                     (''arguments'', JList
                        [JObj [(''name'', JStr ''filepath''), (''description'', JStr ''Path to file''),
                               (''required'', JBool True)]])]]),
           (''limits'', JObj
              [(''max_file_size'', JInt (max_file_size cfg)),
               (''rate_limit_per_minute'', JInt (rate_limit cfg)),
               (''allowed_directories'', JList (map JStr (allowed_directories cfg)))])]"

text \<open>
  Each tool below is its branch of \<^verbatim>\<open>handle_call_tool\<close>, run after the rate limit check.
  It returns the content or the exception raised, with the state at that moment.
\<close>

definition read_file_sandboxed ::
  "platform \<Rightarrow> config \<Rightarrow> real \<Rightarrow> json \<Rightarrow> machine \<Rightarrow> (exn + text_content) \<times> machine" where
  "read_file_sandboxed env cfg now arguments sw =
     (case sw of (st, w) \<Rightarrow>
      case ReadFileParams arguments of
        Inl e \<Rightarrow> (Inl e, sw)
      | Inr (p, enc) \<Rightarrow>
          (case validate_path env cfg p of
             Inl e \<Rightarrow> (Inl e, sw)
           | Inr safe_path \<Rightarrow>
               (case os_stat env w safe_path of
                  (Inl e, w1) \<Rightarrow> (Inl e, (st, w1))
                | (Inr file_size, w1) \<Rightarrow>
                    if file_size > max_file_size cfg then
                      (Inl (Raised ''ValueError'' (''File too large: '' @ str_int file_size
                              @ '' bytes (max: '' @ str_int (max_file_size cfg) @ '')'')), (st, w1))
                    else
                      (case (if enc = ''utf8'' then os_read_text env w1 safe_path
                             else (case os_read_bytes env w1 safe_path of
                                     (Inl e, w2) \<Rightarrow> (Inl e, w2)
                                   | (Inr c, w2) \<Rightarrow> (Inr (b64encode c), w2))) of
                         (Inl e, w2) \<Rightarrow> (Inl e, (st, w2))
                       | (Inr content, w2) \<Rightarrow>
                           (Inr (Plain content),
                            audit_log now ''read_file_sandboxed'' ''success'' (Some [(''path'', p)]) (st, w2))))))"

definition write_file_sandboxed ::
  "platform \<Rightarrow> config \<Rightarrow> real \<Rightarrow> json \<Rightarrow> machine \<Rightarrow> (exn + text_content) \<times> machine" where
  "write_file_sandboxed env cfg now arguments sw =
     (case sw of (st, w) \<Rightarrow>
      case WriteFileParams arguments of
        Inl e \<Rightarrow> (Inl e, sw)
      | Inr (p, content, enc) \<Rightarrow>
          (case validate_path env cfg p of
             Inl e \<Rightarrow> (Inl e, sw)
           | Inr safe_path \<Rightarrow>
               (case mkdir_parents env w (parent safe_path) of
                  (Some e, w1) \<Rightarrow> (Inl e, (st, w1))
                | (None, w1) \<Rightarrow>
                    (case (if enc = ''utf8'' then Inr (encode content) else b64decode content) of
                       Inl e \<Rightarrow> (Inl e, (st, w1))
                     | Inr data \<Rightarrow>
                         (case os_write_bytes env w1 safe_path data of
                            (Some e, w2) \<Rightarrow> (Inl e, (st, w2))
                          | (None, w2) \<Rightarrow>
                              (Inr (Plain (''File written successfully: '' @ p)),
                               audit_log now ''write_file_sandboxed'' ''success'' (Some [(''path'', p)]) (st, w2)))))))"

definition list_directory ::
  "platform \<Rightarrow> config \<Rightarrow> real \<Rightarrow> json \<Rightarrow> machine \<Rightarrow> (exn + text_content) \<times> machine" where
  "list_directory env cfg now arguments sw =
     (case sw of (st, w) \<Rightarrow>
      case ListDirectoryParams arguments of
        Inl e \<Rightarrow> (Inl e, sw)
      | Inr p \<Rightarrow>
          (case validate_path env cfg p of
             Inl e \<Rightarrow> (Inl e, sw)
           | Inr safe_path \<Rightarrow>
               (case os_is_dir env w safe_path of
                  (False, w1) \<Rightarrow> (Inl (Raised ''ValueError'' (''Not a directory: '' @ p)), (st, w1))
                | (True, w1) \<Rightarrow>
                    (case os_iterdir env w1 safe_path of
                       (Inl e, w2) \<Rightarrow> (Inl e, (st, w2))
                     | (Inr children, w2) \<Rightarrow>
                         (Inr (Dumps (JList (map (\<lambda>c. JObj [(''name'', JStr (fst c)),
                                 (''type'', JStr (if snd c then ''directory'' else ''file''))]) children))),
                          audit_log now ''list_directory'' ''success'' (Some [(''path'', p)]) (st, w2))))))"

text \<open>
  The body of the \<^verbatim>\<open>try\<close> block of \<^verbatim>\<open>handle_call_tool\<close>. One reading of the clock,
  \<^verbatim>\<open>now\<close>, stands for every \<^verbatim>\<open>time.time()\<close> of the invocation.
\<close>

definition try_call_tool ::
  "platform \<Rightarrow> config \<Rightarrow> real \<Rightarrow> string \<Rightarrow> json \<Rightarrow> machine \<Rightarrow> (exn + text_content) \<times> machine" where
  "try_call_tool env cfg now name arguments sw =
     (case sw of (st, w) \<Rightarrow>
      case check_rate_limit cfg now ''default'' st of
        Inl e \<Rightarrow> (Inl e, sw)
      | Inr st1 \<Rightarrow>
          if name = ''health_check'' then
            (Inr (Dumps (health_check now st1)), audit_log now ''health_check'' ''success'' None (st1, w))
          else if name = ''capabilities'' then
            (Inr (Dumps (capabilities cfg)), audit_log now ''capabilities'' ''success'' None (st1, w))
          else if name = ''read_file_sandboxed'' then read_file_sandboxed env cfg now arguments (st1, w)
          else if name = ''write_file_sandboxed'' then write_file_sandboxed env cfg now arguments (st1, w)
          else if name = ''list_directory'' then list_directory env cfg now arguments (st1, w)
          else (Inl (Raised ''ValueError'' (''Unknown tool: '' @ name)), (st1, w)))"

text \<open>
  \<^verbatim>\<open>
  async def handle_call_tool(name, arguments):
      try:
          ...
      except Exception as e:
          audit_log(name, "error", {"error_code": type(e).__name__})
          error_message = str(e) or "An unexpected error occurred"
          return [types.TextContent(type="text", text=f"Error: {error_message}")]
  \<close>
\<close>

definition error_text :: "exn \<Rightarrow> text_content" where
  "error_text e = Plain (''Error: '' @ (if exn_msg e = [] then ''An unexpected error occurred'' else exn_msg e))"

definition handle_call_tool ::
  "platform \<Rightarrow> config \<Rightarrow> real \<Rightarrow> string \<Rightarrow> json \<Rightarrow> machine \<Rightarrow> text_content \<times> machine" where
  "handle_call_tool env cfg now name arguments sw =
     (case try_call_tool env cfg now name arguments sw of
        (Inr content, sw1) \<Rightarrow> (content, sw1)
      | (Inl e, sw1) \<Rightarrow>
          (error_text e, audit_log now name ''error'' (Some [(''error_code'', exn_class e)]) sw1))"

section \<open>Notions used to state the properties\<close>




text \<open>
  A text is blank when it consists of whitespace characters only. A text \<^verbatim>\<open>t\<close> is the
  trimmed form of \<^verbatim>\<open>s\<close> when \<^verbatim>\<open>s\<close> is \<^verbatim>\<open>t\<close> between two blank texts and
  \<^verbatim>\<open>t\<close> neither starts nor ends with a whitespace character.
\<close>

definition blank :: "string \<Rightarrow> bool" where
  "blank s = (\<exists>ws. set ws \<subseteq> set whitespace \<and> s = concat ws)"

definition trimmed :: "string \<Rightarrow> string \<Rightarrow> bool" where
  "trimmed s t =
     (\<exists>l r. s = l @ t @ r \<and> blank l \<and> blank r \<and>
        (\<forall>w\<in>set whitespace. \<not> prefix w t \<and> \<not> suffix w t))"

text \<open>
  The classes of the exceptions that the \<^verbatim>\<open>try\<close> block of \<^verbatim>\<open>handle_call_tool\<close> can
  raise: all of them are subclasses of \<^verbatim>\<open>Exception\<close>, which the \<^verbatim>\<open>except\<close> clause
  catches.
\<close>

definition exception_classes :: "string list" where
  "exception_classes =
     [''Exception'', ''TypeError'', ''ValidationError'', ''RuntimeError'', ''ValueError'',
      ''PermissionError'', ''FileNotFoundError'', ''IsADirectoryError'', ''NotADirectoryError'',
      ''FileExistsError'', ''UnicodeDecodeError'', ''Error'']"

text \<open>
  A client calling at the given times, one admission check per call; a rejected call
  leaves the state to the next one as it found it. The result says which calls were admitted.
\<close>

fun run_calls :: "config \<Rightarrow> string \<Rightarrow> real list \<Rightarrow> server_state \<Rightarrow> bool list" where
  "run_calls cfg client [] st = []"
| "run_calls cfg client (t # ts) st =
     (case check_rate_limit cfg t client st of
        Inl _ \<Rightarrow> False # run_calls cfg client ts st
      | Inr st' \<Rightarrow> True # run_calls cfg client ts st')"

text \<open>The server handling a sequence of invocations (clock reading, tool name, arguments).\<close>

fun serve :: "platform \<Rightarrow> config \<Rightarrow> (real \<times> string \<times> json) list \<Rightarrow> machine \<Rightarrow> machine" where
  "serve env cfg [] sw = sw"
| "serve env cfg ((now, name, arguments) # calls) sw =
     serve env cfg calls (snd (handle_call_tool env cfg now name arguments sw))"

text \<open>Every string an audit entry holds: the tool, the outcome, the keys and values of the details.\<close>

definition entry_strings :: "log_entry \<Rightarrow> string list" where
  "entry_strings e =
     tool e # outcome e #
     (case details e of None \<Rightarrow> [] | Some d \<Rightarrow> concat (map (\<lambda>kv. [fst kv, snd kv]) d))"

text \<open>The outcome of a tool run on a machine: it either raises, leaving the server state and
  the audit output as they were, or audits one success under its name.\<close>

definition tool_outcome ::
  "real \<Rightarrow> string \<Rightarrow> machine \<Rightarrow> (exn + text_content) \<times> machine \<Rightarrow> bool" where
  "tool_outcome now name sw res =
     (\<exists>w'. stderr w' = stderr (snd sw) \<and>
        ((\<exists>e. res = (Inl e, (fst sw, w'))) \<or>
         (\<exists>c det. res = (Inr c, audit_log now name ''success'' det (fst sw, w')))))"

section \<open>A platform to run the examples on\<close>

text \<open>
  A POSIX system without symbolic links whose working directory is the root: the real
  path of a path is then the absolute path with its \<^verbatim>\<open>..\<close> segments collapsed. Its
  only user is \<^verbatim>\<open>user\<close>, with home directory \<^verbatim>\<open>/home/user\<close>.
\<close>

fun collapse :: "string list \<Rightarrow> string list \<Rightarrow> string list" where
  "collapse acc [] = rev acc"
| "collapse acc (s # rest) = (if s = ''..'' then collapse (tl acc) rest else collapse (s # acc) rest)"

definition lexical_realpath :: "path \<Rightarrow> path" where
  "lexical_realpath p = \<lparr>anchor = (if anchor p = '''' then ''/'' else anchor p), segs = collapse [] (segs p)\<rparr>"

text \<open>
  A decoder for a fragment of JSON: the three literals, integers, strings without
  escapes, and arrays of these. It stands in for \<^verbatim>\<open>json.loads\<close> in the examples, on
  inputs of the fragment and on inputs that are not JSON at all.
\<close>

definition json_ws :: "char \<Rightarrow> bool" where
  "json_ws c = ((of_char c :: nat) \<in> {9, 10, 13, 32})"

definition is_digit :: "char \<Rightarrow> bool" where
  "is_digit c = (48 \<le> (of_char c :: nat) \<and> (of_char c :: nat) \<le> 57)"

definition int_of_digits :: "string \<Rightarrow> int" where
  "int_of_digits ds = foldl (\<lambda>a c. a * 10 + (of_char c - 48)) 0 ds"

fun scan_string :: "string \<Rightarrow> (string \<times> string) option" where
  "scan_string [] = None"
| "scan_string (c # cs) =
     (if c = CHR 0x22 then Some ([], cs)
      else if c = CHR 0x5C \<or> (of_char c :: nat) < 32 then None
      else (case scan_string cs of None \<Rightarrow> None | Some (s, r) \<Rightarrow> Some (c # s, r)))"

definition scan_scalar :: "string \<Rightarrow> (json \<times> string) option" where
  "scan_scalar s =
     (if prefix ''null'' s then Some (JNull, drop 4 s)
      else if prefix ''true'' s then Some (JBool True, drop 4 s)
      else if prefix ''false'' s then Some (JBool False, drop 5 s)
      else (case s of
              [] \<Rightarrow> None
            | c # cs \<Rightarrow>
                if c = CHR 0x22 then
                  (case scan_string cs of None \<Rightarrow> None | Some (x, r) \<Rightarrow> Some (JStr x, r))
                else
                  (let ds = (if c = CHR ''-'' then cs else s); num = takeWhile is_digit ds in
                   if num = [] \<or> (1 < length num \<and> hd num = CHR ''0'') then None
                   else Some (JInt ((if c = CHR ''-'' then - 1 else 1) * int_of_digits num),
                              dropWhile is_digit ds))))"

fun scan_items :: "nat \<Rightarrow> string \<Rightarrow> (json list \<times> string) option" where
  "scan_items 0 s = None"
| "scan_items (Suc n) s =
     (case scan_scalar (dropWhile json_ws s) of
        None \<Rightarrow> None
      | Some (v, r) \<Rightarrow>
          (case dropWhile json_ws r of
             [] \<Rightarrow> None
           | c # cs \<Rightarrow>
               if c = CHR '','' then
                 (case scan_items n cs of None \<Rightarrow> None | Some (vs, r') \<Rightarrow> Some (v # vs, r'))
               else if c = CHR '']'' then Some ([v], cs)
               else None))"

definition json_decode :: "string \<Rightarrow> json option" where
  "json_decode s =
     (case dropWhile json_ws s of
        [] \<Rightarrow> None
      | c # cs \<Rightarrow>
          (case (if c = CHR ''['' then
                   (case dropWhile json_ws cs of
                      [] \<Rightarrow> None
                    | d # ds \<Rightarrow>
                        if d = CHR '']'' then Some (JList [], ds)
                        else (case scan_items (length cs) cs of
                                None \<Rightarrow> None
                              | Some (vs, r) \<Rightarrow> Some (JList vs, r)))
                 else scan_scalar (c # cs)) of
             None \<Rightarrow> None
           | Some (v, r) \<Rightarrow> if dropWhile json_ws r = [] then Some v else None))"

definition scalar_repr :: "json \<Rightarrow> string" where
  "scalar_repr v =
     (case v of
        JNull \<Rightarrow> ''None''
      | JBool b \<Rightarrow> (if b then ''True'' else ''False'')
      | JInt i \<Rightarrow> str_int i
      | _ \<Rightarrow> ''...'')"

definition example_env :: platform where
  "example_env =
     \<lparr>home_of = (\<lambda>u. if u = [] \<or> u = ''user'' then Some \<lparr>anchor = ''/'', segs = [''home'', ''user'']\<rparr>
                      else None),
      realpath = lexical_realpath,
      dir_size = 4096,
      json_loads = json_decode,
      py_repr = scalar_repr\<rparr>"

definition example_files :: filesystem where
  "example_files =
     [(Path ''/'', Dir),
      (Path ''/allowed'', Dir),
      (Path ''/allowed/secret.txt'', File (encode ''top secret'')),
      (Path ''/allowed/ten.bin'', File (encode ''0123456789'')),
      (Path ''/allowed/eleven.bin'', File (encode ''0123456789a'')),
      (Path ''/etc'', Dir),
      (Path ''/etc/passwd'', File (encode ''root:x:0:0'')),
      (Path ''/home'', Dir),
      (Path ''/home/user'', Dir),
      (Path ''/home/user/Desktop'', Dir)]"

definition example_world :: world where
  "example_world = \<lparr>files = example_files, syscalls = [], stderr = []\<rparr>"

definition example_state :: server_state where
  "example_state = \<lparr>start_time = 1000, request_count = 0, rate_limit_window = (\<lambda>_. [])\<rparr>"

text \<open>The default configuration, and one that allows a single directory with a small read ceiling.\<close>

definition default_config :: config where
  "default_config = \<lparr>allowed_directories = [''~/Desktop''], max_file_size = 104857600, rate_limit = 60\<rparr>"

definition example_config :: config where
  "example_config = \<lparr>allowed_directories = [''/allowed''], max_file_size = 10, rate_limit = 2\<rparr>"

section \<open>Properties\<close>

lemmas path_defs = Path_def splitroot_def str_path_def joinpath_def parent_def is_relative_to_def

lemmas example_defs = example_env_def example_world_def example_files_def example_state_def
  example_config_def default_config_def lexical_realpath_def

lemma lookup_called [simp]: "lookup env (called c w) p = lookup env w p"
  by (simp add: lookup_def called_def)

lemma lookup_Some_nul: "lookup env w p = Some n \<Longrightarrow> \<not> has_nul p"
  by (auto simp: lookup_def split: if_splits)

subsection \<open>Splitting and joining\<close>

lemma split_on_nonempty [simp]: "split_on c s \<noteq> []"
  by (induction s) (auto split: list.splits)



lemma split_on_elems: "x \<in> set (split_on c s) \<Longrightarrow> c \<notin> set x"
proof (induction s arbitrary: x)
  case Nil
  then show ?case by simp
next
  case (Cons a s)
  obtain y ys where y: "split_on c s = y # ys"
    by (cases "split_on c s") auto
  with Cons show ?case by (auto split: if_splits)
qed




lemma join_split: "join_with [c] (split_on c s) = s"
proof (induction s)
  case Nil
  show ?case by simp
next
  case (Cons x s)
  obtain y ys where y: "split_on c s = y # ys"
    by (cases "split_on c s") auto
  with Cons show ?case
    by (cases ys) auto
qed

subsection \<open>The read ceiling of \<^verbatim>\<open>read_capped\<close>\<close>

lemma read_cap_cases: "read_cap max_mb = (if max_mb \<le> 0 then 1048576 else max_mb * 1048576)"
  by (simp add: read_cap_def max_def)

lemma read_capped_file:
  assumes "lookup env w (Path p) = Some (File c)"
  shows "read_capped env w p max_mb =
     (if int (length c) > read_cap max_mb
      then (Inl (Raised ''SandboxError'' (''File exceeds limit: '' @ str_int (int (length c))
                   @ '' > '' @ str_int (read_cap max_mb))),
            called (Stat (Path p)) w)
      else (Inr c, called (ReadBytes (Path p)) (called (Stat (Path p)) w)))"
proof -
  from assms have "\<not> has_nul (Path p)"
    by (auto simp: lookup_def split: if_splits)
  with assms show ?thesis
    by (simp add: read_capped_def os_stat_def os_read_bytes_def Let_def)
qed

lemma example_lookup_secret:
  "lookup example_env example_world (Path ''/allowed/secret.txt'') = Some (File (encode ''top secret''))"
  by (simp add: lookup_def has_nul_def example_defs path_defs)

text \<open>
  Claim C9. \<^verbatim>\<open>read_capped\<close> computes its byte ceiling as \<^verbatim>\<open>max(1, max_mb) * 1024 * 1024\<close>:
  for every \<^verbatim>\<open>max_mb\<close> that is zero or negative the ceiling is exactly 1 MiB, so such a
  configuration never rejects all reads, and for \<^verbatim>\<open>max_mb\<close> of at least 1 it is exactly
  \<^verbatim>\<open>max_mb\<close> MiB. A file is returned exactly when its size does not exceed that ceiling.
\<close>

theorem read_capped_ceiling:
  "read_cap max_mb = (if max_mb \<le> 0 then 1048576 else max_mb * 1048576) \<and>
   (lookup env w (Path p) = Some (File c) \<longrightarrow>
      (fst (read_capped env w p max_mb) = Inr c) =
      (int (length c) \<le> (if max_mb \<le> 0 then 1048576 else max_mb * 1048576)))"
proof (intro conjI impI)
  show "read_cap max_mb = (if max_mb \<le> 0 then 1048576 else max_mb * 1048576)"
    by (rule read_cap_cases)
next
  assume f: "lookup env w (Path p) = Some (File c)"
  show "(fst (read_capped env w p max_mb) = Inr c) =
      (int (length c) \<le> (if max_mb \<le> 0 then 1048576 else max_mb * 1048576))"
    unfolding read_capped_file [OF f] read_cap_cases by auto
qed

theorem read_capped_ceiling_witness:
  "read_cap 0 = 1048576 \<and> read_cap (- 3) = 1048576 \<and> read_cap 8 = 8388608 \<and>
   fst (read_capped example_env example_world ''/allowed/secret.txt'' 0) = Inr (encode ''top secret'')"
  using read_capped_ceiling [of 0 example_env example_world "''/allowed/secret.txt''" "encode ''top secret''"]
    read_capped_ceiling [of "- 3" example_env example_world "''/allowed/secret.txt''" "encode ''top secret''"]
    read_capped_ceiling [of 8 example_env example_world "''/allowed/secret.txt''" "encode ''top secret''"]
    example_lookup_secret
  by (simp add: encode_def)

subsection \<open>The empty AllowList\<close>









subsection \<open>The AllowList parsers\<close>

declare lstrip.simps [simp del] rstrip.simps [simp del]

lemma blank_Nil [simp]: "blank []"
  unfolding blank_def by (rule exI [of _ "[]"]) simp

lemma blank_Cons: "w \<in> set whitespace \<Longrightarrow> blank l \<Longrightarrow> blank (w @ l)"
  unfolding blank_def
proof (elim exE conjE)
  fix ws
  assume "w \<in> set whitespace" "set ws \<subseteq> set whitespace" "l = concat ws"
  then have "set (w # ws) \<subseteq> set whitespace \<and> w @ l = concat (w # ws)" by simp
  then show "\<exists>ws. set ws \<subseteq> set whitespace \<and> w @ l = concat ws" by blast
qed

lemma blank_snoc: "blank l \<Longrightarrow> w \<in> set whitespace \<Longrightarrow> blank (l @ w)"
  unfolding blank_def
proof (elim exE conjE)
  fix ws
  assume "w \<in> set whitespace" "set ws \<subseteq> set whitespace" "l = concat ws"
  then have "set (ws @ [w]) \<subseteq> set whitespace \<and> l @ w = concat (ws @ [w])" by simp
  then show "\<exists>ws. set ws \<subseteq> set whitespace \<and> l @ w = concat ws" by blast
qed

lemma leading_space_None: "leading_space s = None \<Longrightarrow> w \<in> set whitespace \<Longrightarrow> \<not> prefix w s"
  by (auto simp: leading_space_def find_None_iff)

lemma trailing_space_None: "trailing_space s = None \<Longrightarrow> w \<in> set whitespace \<Longrightarrow> \<not> suffix w s"
  by (auto simp: trailing_space_def find_None_iff)

lemma lstrip_spec:
  "\<exists>l. s = l @ lstrip s \<and> blank l \<and> (\<forall>w\<in>set whitespace. \<not> prefix w (lstrip s))"
proof (induction s rule: lstrip.induct)
  case (1 s)
  show ?case
  proof (cases "leading_space s")
    case None
    then have "lstrip s = s" by (subst lstrip.simps) simp
    moreover have "\<forall>w\<in>set whitespace. \<not> prefix w s"
      using None leading_space_None by blast
    ultimately show ?thesis
      by (intro exI [of _ "[]"]) simp
  next
    case (Some w)
    then have w: "w \<in> set whitespace" "prefix w s"
      using leading_space_Some by blast+
    then obtain rest where s: "s = w @ rest"
      by (auto simp: prefix_def)
    then have d: "drop (length w) s = rest" by simp
    have ls: "lstrip s = lstrip rest"
      using Some d by (subst lstrip.simps) simp
    from "1.IH" [OF Some] d obtain l where
      l: "rest = l @ lstrip rest" "blank l" "\<forall>w\<in>set whitespace. \<not> prefix w (lstrip rest)"
      by auto
    have eq: "w @ rest = (w @ l) @ lstrip rest"
      using l(1) by simp
    have "s = (w @ l) @ lstrip s"
      by (subst ls, subst s) (rule eq)
    moreover have "blank (w @ l)" using w(1) l(2) by (rule blank_Cons)
    moreover have "\<forall>w\<in>set whitespace. \<not> prefix w (lstrip s)"
      using l(3) unfolding ls .
    ultimately show ?thesis by blast
  qed
qed

lemma rstrip_spec:
  "\<exists>r. s = rstrip s @ r \<and> blank r \<and> (\<forall>w\<in>set whitespace. \<not> suffix w (rstrip s))"
proof (induction s rule: rstrip.induct)
  case (1 s)
  show ?case
  proof (cases "trailing_space s")
    case None
    then have "rstrip s = s" by (subst rstrip.simps) simp
    moreover have "\<forall>w\<in>set whitespace. \<not> suffix w s"
      using None trailing_space_None by blast
    ultimately show ?thesis
      by (intro exI [of _ "[]"]) simp
  next
    case (Some w)
    then have w: "w \<in> set whitespace" "suffix w s"
      using trailing_space_Some by blast+
    then obtain front where s: "s = front @ w"
      by (auto simp: suffix_def)
    then have d: "take (length s - length w) s = front" by simp
    have rs: "rstrip s = rstrip front"
      using Some d by (subst rstrip.simps) simp
    from "1.IH" [OF Some] d obtain r where
      r: "front = rstrip front @ r" "blank r" "\<forall>w\<in>set whitespace. \<not> suffix w (rstrip front)"
      by auto
    have eq: "front @ w = rstrip front @ (r @ w)"
      using r(1) by (metis append.assoc)
    have "s = rstrip s @ (r @ w)"
      by (subst rs, subst s) (rule eq)
    moreover have "blank (r @ w)" using r(2) w(1) by (rule blank_snoc)
    moreover have "\<forall>w\<in>set whitespace. \<not> suffix w (rstrip s)"
      using r(3) unfolding rs .
    ultimately show ?thesis by blast
  qed
qed

lemma strip_trimmed: "trimmed s (strip s)"
proof -
  obtain l where l: "s = l @ lstrip s" "blank l" "\<forall>w\<in>set whitespace. \<not> prefix w (lstrip s)"
    using lstrip_spec by blast
  obtain r where r: "lstrip s = strip s @ r" "blank r" "\<forall>w\<in>set whitespace. \<not> suffix w (strip s)"
    using rstrip_spec [of "lstrip s"] by (auto simp: strip_def)
  have pre: "\<not> prefix w (strip s)" if "w \<in> set whitespace" for w
  proof
    assume "prefix w (strip s)"
    then have "prefix w (lstrip s)" using r(1) by (simp add: prefix_prefix)
    with l(3) that show False by blast
  qed
  have both: "\<forall>w\<in>set whitespace. \<not> prefix w (strip s) \<and> \<not> suffix w (strip s)"
    using pre r(3) by blast
  have "s = l @ strip s @ r" using l(1) r(1) by simp
  with l(2) r(2) both show ?thesis
    unfolding trimmed_def by (intro exI [of _ l] exI [of _ r]) simp
qed

lemma comma_split_trimmed:
  "\<exists>ts. list_all2 trimmed (split_on CHR '','' raw) ts \<and> comma_split raw = filter (\<lambda>t. t \<noteq> []) ts"
proof (intro exI conjI)
  show "list_all2 trimmed (split_on CHR '','' raw) (map strip (split_on CHR '','' raw))"
    by (simp add: list_all2_conv_all_nth strip_trimmed)
  show "comma_split raw = filter (\<lambda>t. t \<noteq> []) (map strip (split_on CHR '','' raw))"
    by (simp add: comma_split_def filter_map comp_def)
qed

lemma decode_array_example:
  "json_decode ''[ \"/a\", \"/b c\" ]'' = Some (JList (map JStr [''/a'', ''/b c'']))"
  by (simp add: json_decode_def json_ws_def scan_scalar_def)

lemma decode_number_example: "json_decode ''123'' = Some (JInt 123)"
  by (simp add: json_decode_def json_ws_def scan_scalar_def is_digit_def int_of_digits_def)

lemma decode_plain_example: "json_decode '' /tmp , ,/var'' = None"
  by (simp add: json_decode_def json_ws_def scan_scalar_def is_digit_def)

lemma decode_nbsp_example: "json_decode (''/tmp,'' @ [CHR 0xC2, CHR 0xA0]) = None"
  by (simp add: json_decode_def json_ws_def scan_scalar_def is_digit_def)

lemma comma_split_example: "comma_split '' /tmp , ,/var'' = [''/tmp'', ''/var'']"
  by code_simp

lemma comma_split_number: "comma_split ''123'' = [''123'']"
  by code_simp

lemma comma_split_nbsp: "comma_split (''/tmp,'' @ [CHR 0xC2, CHR 0xA0]) = [''/tmp'']"
  by code_simp

text \<open>
  Claim C8 (as amended). An absent or empty configuration string gives the empty
  AllowList in both extensions. When the string decodes as a JSON array, the
  fs-sandbox parser returns its elements through \<^verbatim>\<open>str()\<close> (verbatim for an array
  of strings) and the ffprobe-lite parser returns the decoded elements as they are. When
  the string is not well-formed JSON, both split it on commas, trim whitespace and discard
  empty segments. When it is well-formed JSON that is not an array, the fs-sandbox parser
  falls back to the comma split, whereas the ffprobe-lite parser returns the empty
  AllowList. The comma split is pinned without reference to the trimming function: the
  segments contain no comma and joined with commas give the string back; each segment is
  a run of whitespace characters, then its trimmed form, then a run of whitespace
  characters, where the trimmed form neither starts nor ends with a whitespace character
  (of Unicode, not only of ASCII); the result is the list of the trimmed forms that are
  not empty, in order.
\<close>

theorem parse_allowed_branches:
  "parse_allowed env None = [] \<and> parse_allowed env (Some []) = [] \<and>
   ff_parse_allowed env None = [] \<and> ff_parse_allowed env (Some []) = [] \<and>
   (raw \<noteq> [] \<and> json_loads env raw = Some (JList arr) \<longrightarrow>
      parse_allowed env (Some raw) = map (py_str env) arr \<and>
      ff_parse_allowed env (Some raw) = arr) \<and>
   (raw \<noteq> [] \<and> json_loads env raw = Some (JList (map JStr ss)) \<longrightarrow>
      parse_allowed env (Some raw) = ss) \<and>
   (raw \<noteq> [] \<and> json_loads env raw = None \<longrightarrow>
      parse_allowed env (Some raw) = comma_split raw \<and>
      ff_parse_allowed env (Some raw) = map JStr (comma_split raw)) \<and>
   (raw \<noteq> [] \<and> json_loads env raw = Some v \<and> (\<forall>xs. v \<noteq> JList xs) \<longrightarrow>
      parse_allowed env (Some raw) = comma_split raw \<and>
      ff_parse_allowed env (Some raw) = []) \<and>
   join_with '','' (split_on CHR '','' raw) = raw \<and>
   (\<forall>seg \<in> set (split_on CHR '','' raw). CHR '','' \<notin> set seg) \<and>
   (\<exists>ts. list_all2 trimmed (split_on CHR '','' raw) ts \<and>
      comma_split raw = filter (\<lambda>t. t \<noteq> []) ts)"
proof -
  have a: "raw \<noteq> [] \<and> json_loads env raw = Some (JList arr) \<longrightarrow>
      parse_allowed env (Some raw) = map (py_str env) arr \<and> ff_parse_allowed env (Some raw) = arr"
    by (simp add: parse_allowed_def ff_parse_allowed_def)
  have b: "raw \<noteq> [] \<and> json_loads env raw = Some (JList (map JStr ss)) \<longrightarrow>
      parse_allowed env (Some raw) = ss"
    by (simp add: parse_allowed_def py_str_def comp_def)
  have c: "raw \<noteq> [] \<and> json_loads env raw = None \<longrightarrow>
      parse_allowed env (Some raw) = comma_split raw \<and>
      ff_parse_allowed env (Some raw) = map JStr (comma_split raw)"
    by (simp add: parse_allowed_def ff_parse_allowed_def)
  have d: "raw \<noteq> [] \<and> json_loads env raw = Some v \<and> (\<forall>xs. v \<noteq> JList xs) \<longrightarrow>
      parse_allowed env (Some raw) = comma_split raw \<and> ff_parse_allowed env (Some raw) = []"
    by (cases v) (simp_all add: parse_allowed_def ff_parse_allowed_def)
  have e: "join_with '','' (split_on CHR '','' raw) = raw"
    by (rule join_split)
  have f: "\<forall>seg \<in> set (split_on CHR '','' raw). CHR '','' \<notin> set seg"
    using split_on_elems by blast
  have g: "parse_allowed env None = [] \<and> parse_allowed env (Some []) = [] \<and>
   ff_parse_allowed env None = [] \<and> ff_parse_allowed env (Some []) = []"
    by (simp add: parse_allowed_def ff_parse_allowed_def)
  from g a b c d e f comma_split_trimmed [of raw] show ?thesis
    by blast
qed

theorem parse_allowed_branches_witness:
  "parse_allowed example_env (Some ''[ \"/a\", \"/b c\" ]'') = [''/a'', ''/b c''] \<and>
   ff_parse_allowed example_env (Some ''[ \"/a\", \"/b c\" ]'') = [JStr ''/a'', JStr ''/b c''] \<and>
   parse_allowed example_env (Some '' /tmp , ,/var'') = [''/tmp'', ''/var''] \<and>
   ff_parse_allowed example_env (Some '' /tmp , ,/var'') = [JStr ''/tmp'', JStr ''/var''] \<and>
   parse_allowed example_env (Some (''/tmp,'' @ [CHR 0xC2, CHR 0xA0])) = [''/tmp''] \<and>
   parse_allowed example_env (Some ''123'') = [''123''] \<and>
   ff_parse_allowed example_env (Some ''123'') = []"
proof -
  have l1: "json_loads example_env ''[ \"/a\", \"/b c\" ]'' = Some (JList (map JStr [''/a'', ''/b c'']))"
    using decode_array_example by (simp add: example_env_def)
  have l2: "json_loads example_env '' /tmp , ,/var'' = None"
    using decode_plain_example by (simp add: example_env_def)
  have l3: "json_loads example_env ''123'' = Some (JInt 123)"
    using decode_number_example by (simp add: example_env_def)
  have l4: "json_loads example_env (''/tmp,'' @ [CHR 0xC2, CHR 0xA0]) = None"
    using decode_nbsp_example by (simp add: example_env_def)
  note array = parse_allowed_branches
    [of example_env "''[ \"/a\", \"/b c\" ]''" "map JStr [''/a'', ''/b c'']" "[''/a'', ''/b c'']" JNull,
      THEN conjunct2, THEN conjunct2, THEN conjunct2, THEN conjunct2]
  note plain = parse_allowed_branches
    [of example_env "'' /tmp , ,/var''" "[]" "[]" JNull,
      THEN conjunct2, THEN conjunct2, THEN conjunct2, THEN conjunct2,
      THEN conjunct2, THEN conjunct2]
  note nbsp = parse_allowed_branches
    [of example_env "''/tmp,'' @ [CHR 0xC2, CHR 0xA0]" "[]" "[]" JNull,
      THEN conjunct2, THEN conjunct2, THEN conjunct2, THEN conjunct2,
      THEN conjunct2, THEN conjunct2, THEN conjunct1]
  note scalar = parse_allowed_branches
    [of example_env "''123''" "[]" "[]" "JInt 123",
      THEN conjunct2, THEN conjunct2, THEN conjunct2, THEN conjunct2,
      THEN conjunct2, THEN conjunct2, THEN conjunct2, THEN conjunct1]
  have a: "parse_allowed example_env (Some ''[ \"/a\", \"/b c\" ]'') = [''/a'', ''/b c'']"
    using array [THEN conjunct2, THEN conjunct1] l1 by simp
  have b: "ff_parse_allowed example_env (Some ''[ \"/a\", \"/b c\" ]'') = [JStr ''/a'', JStr ''/b c'']"
    using array [THEN conjunct1] l1 by simp
  have c: "parse_allowed example_env (Some '' /tmp , ,/var'') = [''/tmp'', ''/var''] \<and>
      ff_parse_allowed example_env (Some '' /tmp , ,/var'') = [JStr ''/tmp'', JStr ''/var'']"
    using plain [THEN conjunct1] l2 comma_split_example by simp
  have d: "parse_allowed example_env (Some ''123'') = [''123''] \<and>
      ff_parse_allowed example_env (Some ''123'') = []"
    using scalar l3 comma_split_number by simp
  have e: "parse_allowed example_env (Some (''/tmp,'' @ [CHR 0xC2, CHR 0xA0])) = [''/tmp'']"
    using nbsp l4 comma_split_nbsp by simp
  from a b c d e show ?thesis by blast
qed

text \<open>
  The input \<^verbatim>\<open>123\<close> is well-formed JSON and not an array: the ffprobe-lite parser
  returns the empty list for it, not the comma split.
\<close>

theorem parse_allowed_json_scalar_counterexample:
  "json_loads example_env ''123'' = Some (JInt 123) \<and>
   ff_parse_allowed example_env (Some ''123'') = [] \<and>
   map JStr (comma_split ''123'') = [JStr ''123''] \<and>
   ff_parse_allowed example_env (Some ''123'') \<noteq> map JStr (comma_split ''123'')"
  using decode_number_example comma_split_number
  by (simp add: ff_parse_allowed_def example_env_def)

subsection \<open>Containment\<close>











lemma expand_all_iff: "expand_all env ds = Inr as \<longleftrightarrow> map (expand_path env) ds = map Inr as"
proof (induction ds arbitrary: as)
  case Nil
  show ?case by auto
next
  case (Cons d ds)
  show ?case
  proof (cases "expand_path env d")
    case (Inl e)
    then show ?thesis by (cases as) auto
  next
    case a: (Inr a)
    show ?thesis
    proof (cases "expand_all env ds")
      case (Inl e)
      with Cons.IH have "\<And>zs. map (expand_path env) ds \<noteq> map Inr zs" by simp
      with a Inl show ?thesis by (cases as) auto
    next
      case (Inr rest)
      with Cons.IH [of rest] have "map (expand_path env) ds = map Inr rest" by simp
      with a Inr show ?thesis by (cases as) (auto simp: inj_map_eq_map)
    qed
  qed
qed

lemma validate_loop_iff:
  "validate_loop rq r ps = Inr q \<longleftrightarrow> q = r \<and> (\<exists>a\<in>set ps. is_relative_to r a)"
  by (induction ps) auto

lemma expand_all_total:
  "(\<exists>as. expand_all env ds = Inr as) \<longleftrightarrow> (\<forall>b\<in>set ds. \<exists>a. expand_path env b = Inr a)"
proof (induction ds)
  case Nil
  show ?case by simp
next
  case (Cons d ds)
  then show ?case by (auto split: sum.splits)
qed

lemma expand_all_set:
  "expand_all env ds = Inr as \<Longrightarrow> a \<in> set as \<longleftrightarrow> (\<exists>b\<in>set ds. expand_path env b = Inr a)"
proof -
  assume "expand_all env ds = Inr as"
  then have "map (expand_path env) ds = map Inr as" by (simp add: expand_all_iff)
  then have "expand_path env ` set ds = Inr ` set as" by (metis set_map)
  then show ?thesis by (auto simp: image_iff) (metis imageI image_iff sum.inject(2))+
qed

lemma validate_path_iff:
  "validate_path env cfg p = Inr q \<longleftrightarrow>
     expand_path env p = Inr q \<and>
     (\<forall>b\<in>set (allowed_directories cfg). \<exists>a. expand_path env b = Inr a) \<and>
     (\<exists>b\<in>set (allowed_directories cfg). \<exists>a. expand_path env b = Inr a \<and> is_relative_to q a)"
proof (cases "expand_path env p")
  case (Inl e)
  then show ?thesis by (simp add: validate_path_def)
next
  case (Inr r)
  show ?thesis
  proof (cases "expand_all env (allowed_directories cfg)")
    case (Inl e)
    then have "\<not> (\<forall>b\<in>set (allowed_directories cfg). \<exists>a. expand_path env b = Inr a)"
      using expand_all_total [of env "allowed_directories cfg"] by simp
    with Inr Inl show ?thesis by (simp add: validate_path_def)
  next
    case as: (Inr as)
    then have all: "\<forall>b\<in>set (allowed_directories cfg). \<exists>a. expand_path env b = Inr a"
      using expand_all_total [of env "allowed_directories cfg"] by blast
    have "(\<exists>a\<in>set as. is_relative_to r a) \<longleftrightarrow>
        (\<exists>b\<in>set (allowed_directories cfg). \<exists>a. expand_path env b = Inr a \<and> is_relative_to r a)"
      using expand_all_set [OF as] by blast
    with Inr as all show ?thesis by (auto simp: validate_path_def validate_loop_iff)
  qed
qed













subsection \<open>Paths that start with a tilde\<close>

lemma tilde_path_accepted_lexically:
  assumes "home_of env '''' = Some h"
  shows "validate_path env (cfg\<lparr>allowed_directories := [''~/Desktop'']\<rparr>) ''~/Desktop/../../etc/passwd'' =
     Inr (h\<lparr>segs := segs h @ [''Desktop'', ''..'', ''..'', ''etc'', ''passwd'']\<rparr>)"
  using assms
  by (simp add: validate_path_def expand_path_def path_home_def is_relative_to_def path_defs)

lemma validate_path_resolved:
  assumes "\<not> prefix ''~/'' p" and "validate_path env cfg p = Inr r"
  shows "r = realpath env (Path p) \<and>
     (\<exists>b\<in>set (allowed_directories cfg). \<exists>a. expand_path env b = Inr a \<and>
        is_relative_to (realpath env (Path p)) a)"
  using assms by (auto simp: validate_path_iff expand_path_def path_resolve_def split: if_splits)

lemma unat_of_char [simp]: "unat (of_char c :: byte) = of_char c"
proof -
  have "unat (of_nat (of_char c) :: byte) = of_char c mod 256"
    by (simp add: unat_of_nat)
  then show ?thesis by (simp add: of_nat_of_char)
qed

lemma decode_encode [simp]: "decode (encode s) = s"
  by (simp add: decode_def encode_def comp_def)

lemma length_encode [simp]: "length (encode s) = length s"
  by (simp add: encode_def)

lemma utf8_valid_encode: "utf8_valid (encode s) = utf8_scan [] (map of_char s)"
  by (simp add: utf8_valid_def encode_def comp_def)

lemmas server_defs = handle_call_tool_def try_call_tool_def check_rate_limit_def pruned_def
  read_file_sandboxed_def ReadFileParams_def str_field_def py_len_def encoding_field_def
  validate_path_def expand_path_def path_home_def path_resolve_def has_nul_def
  is_relative_to_def os_stat_def os_read_text_def
  os_read_bytes_def lookup_def called_def

text \<open>
  Claim C2. \<^verbatim>\<open>validate_path\<close> should canonicalize the requested path before the
  containment check. For a request that starts with \<^verbatim>\<open>~/\<close>, \<^verbatim>\<open>expand_path\<close>
  joins it to the home directory and returns without resolving it, so the \<^verbatim>\<open>..\<close>
  segments stay: with the default AllowList \<^verbatim>\<open>~/Desktop\<close> the request
  \<^verbatim>\<open>~/Desktop/../../../etc/passwd\<close> is accepted although it resolves to
  \<^verbatim>\<open>/etc/passwd\<close>, outside the allowed directory, and the read tool returns that
  file's content.
\<close>

theorem tilde_traversal_escapes:
  "validate_path example_env default_config ''~/Desktop/../../../etc/passwd'' =
     Inr \<lparr>anchor = ''/'', segs = [''home'', ''user'', ''Desktop'', ''..'', ''..'', ''..'', ''etc'', ''passwd'']\<rparr> \<and>
   realpath example_env
     \<lparr>anchor = ''/'', segs = [''home'', ''user'', ''Desktop'', ''..'', ''..'', ''..'', ''etc'', ''passwd'']\<rparr> =
     Path ''/etc/passwd'' \<and>
   expand_path example_env ''~/Desktop'' = Inr (Path ''/home/user/Desktop'') \<and>
   realpath example_env (Path ''/home/user/Desktop'') = Path ''/home/user/Desktop'' \<and>
   \<not> is_relative_to (Path ''/etc/passwd'') (Path ''/home/user/Desktop'') \<and>
   fst (handle_call_tool example_env default_config 1000 ''read_file_sandboxed''
          (JObj [(''path'', JStr ''~/Desktop/../../../etc/passwd'')]) (example_state, example_world)) =
     Plain ''root:x:0:0''"
proof (intro conjI)
  show "validate_path example_env default_config ''~/Desktop/../../../etc/passwd'' =
     Inr \<lparr>anchor = ''/'', segs = [''home'', ''user'', ''Desktop'', ''..'', ''..'', ''..'', ''etc'', ''passwd'']\<rparr>"
    by (simp add: validate_path_def expand_path_def path_home_def is_relative_to_def path_defs example_defs)
  show "realpath example_env
     \<lparr>anchor = ''/'', segs = [''home'', ''user'', ''Desktop'', ''..'', ''..'', ''..'', ''etc'', ''passwd'']\<rparr> =
     Path ''/etc/passwd''"
    by (simp add: example_defs path_defs)
  show "expand_path example_env ''~/Desktop'' = Inr (Path ''/home/user/Desktop'')"
    by (simp add: expand_path_def path_home_def example_defs path_defs)
  show "realpath example_env (Path ''/home/user/Desktop'') = Path ''/home/user/Desktop''"
    by (simp add: example_defs path_defs)
  show "\<not> is_relative_to (Path ''/etc/passwd'') (Path ''/home/user/Desktop'')"
    by (simp add: path_defs)
  show "fst (handle_call_tool example_env default_config 1000 ''read_file_sandboxed''
          (JObj [(''path'', JStr ''~/Desktop/../../../etc/passwd'')]) (example_state, example_world)) =
     Plain ''root:x:0:0''"
    by (simp add: server_defs path_defs example_defs utf8_valid_encode)
qed

subsection \<open>Rate limiting\<close>

lemma pruned_set: "set (pruned now ts) = {t \<in> set ts. now - 60 < t}"
  by (auto simp: pruned_def)

lemma pruned_all: "\<forall>t\<in>set ts. now - 60 < t \<Longrightarrow> pruned now ts = ts"
  by (simp add: pruned_def)

lemma pruned_none: "\<forall>t\<in>set ts. t \<le> now - 60 \<Longrightarrow> pruned now ts = []"
  by (induction ts) (auto simp: pruned_def)

lemma check_rate_limit_Inr:
  "check_rate_limit cfg now c st = Inr st' \<longleftrightarrow>
     int (length (pruned now (rate_limit_window st c))) < rate_limit cfg \<and>
     st' = st\<lparr>rate_limit_window := (rate_limit_window st)(c := pruned now (rate_limit_window st c) @ [now])\<rparr>"
  by (auto simp: check_rate_limit_def Let_def)

lemma check_rate_limit_Inl:
  "check_rate_limit cfg now c st = Inl e \<longleftrightarrow>
     rate_limit cfg \<le> int (length (pruned now (rate_limit_window st c))) \<and> e = rate_limited"
  by (auto simp: check_rate_limit_def Let_def)

lemma audit_log_window [simp]:
  "rate_limit_window (fst (audit_log now t oc det (st, w))) = rate_limit_window st"
  by (simp add: audit_log_def Let_def)

lemma rejected_call:
  assumes "check_rate_limit cfg now ''default'' st = Inl e"
  shows "handle_call_tool env cfg now name arguments (st, w) =
     (error_text rate_limited, audit_log now name ''error'' (Some [(''error_code'', ''Exception'')]) (st, w))"
proof -
  from assms have "check_rate_limit cfg now ''default'' st = Inl rate_limited"
    by (simp add: check_rate_limit_Inl)
  then show ?thesis
    by (simp add: handle_call_tool_def try_call_tool_def rate_limited_def)
qed

lemma run_calls_within:
  assumes "rate_limit cfg = int N"
  shows "ts \<noteq> [] \<Longrightarrow>
     length (rate_limit_window st c) + length ts = N + 1 \<Longrightarrow>
     \<forall>s\<in>set (rate_limit_window st c) \<union> set ts. \<forall>t\<in>set ts. t < s + 60 \<Longrightarrow>
     run_calls cfg c ts st = replicate (length ts - 1) True @ [False]"
proof (induction ts arbitrary: st)
  case Nil
  then show ?case by simp
next
  case (Cons t ts)
  have keep: "pruned t (rate_limit_window st c) = rate_limit_window st c"
    using Cons.prems(3) by (intro pruned_all) (auto simp: algebra_simps)
  show ?case
  proof (cases "ts = []")
    case True
    with Cons.prems(2) have "length (rate_limit_window st c) = N" by simp
    then have "check_rate_limit cfg t c st = Inl rate_limited"
      using assms keep by (simp add: check_rate_limit_Inl)
    with True show ?thesis by simp
  next
    case False
    define st' where "st' = st\<lparr>rate_limit_window := (rate_limit_window st)(c := rate_limit_window st c @ [t])\<rparr>"
    from False Cons.prems(2) have "length (rate_limit_window st c) < N"
      by (cases ts) auto
    then have adm: "check_rate_limit cfg t c st = Inr st'"
      using assms keep by (simp add: check_rate_limit_Inr st'_def)
    have w: "rate_limit_window st' c = rate_limit_window st c @ [t]"
      by (simp add: st'_def)
    have "run_calls cfg c ts st' = replicate (length ts - 1) True @ [False]"
    proof (rule Cons.IH [OF False])
      show "length (rate_limit_window st' c) + length ts = N + 1"
        using Cons.prems(2) by (simp add: w)
      show "\<forall>s\<in>set (rate_limit_window st' c) \<union> set ts. \<forall>t\<in>set ts. t < s + 60"
        using Cons.prems(3) by (auto simp: w)
    qed
    with adm False show ?thesis
      by (cases ts) (simp_all flip: replicate_Suc)
  qed
qed

text \<open>
  Claim C4. With \<^verbatim>\<open>rate_limit = N\<close> and a fixed client: every admission check first
  prunes the client's window to the timestamps later than \<^verbatim>\<open>now - 60\<close>; the call is
  admitted, and \<^verbatim>\<open>now\<close> appended to the pruned window, exactly when the pruned count
  is strictly below \<^verbatim>\<open>N\<close>; otherwise it is rejected, and a rejected invocation leaves
  the windows as they were. Of \<^verbatim>\<open>N + 1\<close> calls less than 60 seconds apart, starting
  from an empty window, the first \<^verbatim>\<open>N\<close> are admitted and the last is rejected. Once
  every recorded timestamp is at least 60 seconds old (and \<^verbatim>\<open>N\<close> is at least 1), the
  client is admitted again.
\<close>

theorem sliding_window_rate_limit:
  "(check_rate_limit cfg now c st = Inr st' \<longleftrightarrow>
      int (length (pruned now (rate_limit_window st c))) < rate_limit cfg \<and>
      st' = st\<lparr>rate_limit_window := (rate_limit_window st)(c := pruned now (rate_limit_window st c) @ [now])\<rparr>) \<and>
   (check_rate_limit cfg now c st = Inl e \<longleftrightarrow>
      rate_limit cfg \<le> int (length (pruned now (rate_limit_window st c))) \<and> e = rate_limited) \<and>
   set (pruned now ts) = {t \<in> set ts. now - 60 < t} \<and>
   (check_rate_limit cfg now ''default'' st = Inl e \<longrightarrow>
      fst (handle_call_tool env cfg now name arguments (st, w)) = error_text rate_limited \<and>
      rate_limit_window (fst (snd (handle_call_tool env cfg now name arguments (st, w)))) =
        rate_limit_window st) \<and>
   (rate_limit cfg = int N \<and> rate_limit_window st c = [] \<and> length calls = N + 1 \<and>
      (\<forall>s\<in>set calls. \<forall>t\<in>set calls. t < s + 60) \<longrightarrow>
      run_calls cfg c calls st = replicate N True @ [False]) \<and>
   (1 \<le> rate_limit cfg \<and> (\<forall>t\<in>set (rate_limit_window st c). t \<le> now - 60) \<longrightarrow>
      (\<exists>st''. check_rate_limit cfg now c st = Inr st'' \<and> rate_limit_window st'' c = [now]))"
proof (intro conjI impI)
  show "check_rate_limit cfg now c st = Inr st' \<longleftrightarrow>
      int (length (pruned now (rate_limit_window st c))) < rate_limit cfg \<and>
      st' = st\<lparr>rate_limit_window := (rate_limit_window st)(c := pruned now (rate_limit_window st c) @ [now])\<rparr>"
    by (rule check_rate_limit_Inr)
  show "check_rate_limit cfg now c st = Inl e \<longleftrightarrow>
      rate_limit cfg \<le> int (length (pruned now (rate_limit_window st c))) \<and> e = rate_limited"
    by (rule check_rate_limit_Inl)
  show "set (pruned now ts) = {t \<in> set ts. now - 60 < t}"
    by (rule pruned_set)
next
  assume r: "check_rate_limit cfg now ''default'' st = Inl e"
  show "fst (handle_call_tool env cfg now name arguments (st, w)) = error_text rate_limited"
    by (simp add: rejected_call [OF r])
  show "rate_limit_window (fst (snd (handle_call_tool env cfg now name arguments (st, w)))) =
        rate_limit_window st"
    by (simp add: rejected_call [OF r])
next
  assume h: "rate_limit cfg = int N \<and> rate_limit_window st c = [] \<and> length calls = N + 1 \<and>
      (\<forall>s\<in>set calls. \<forall>t\<in>set calls. t < s + 60)"
  then have ne: "calls \<noteq> []" by auto
  from h have n: "rate_limit cfg = int N" by simp
  have "run_calls cfg c calls st = replicate (length calls - 1) True @ [False]"
    using h by (intro run_calls_within [OF n ne]) auto
  with h show "run_calls cfg c calls st = replicate N True @ [False]" by simp
next
  assume h: "1 \<le> rate_limit cfg \<and> (\<forall>t\<in>set (rate_limit_window st c). t \<le> now - 60)"
  then have "pruned now (rate_limit_window st c) = []"
    by (intro pruned_none) simp
  with h show "\<exists>st''. check_rate_limit cfg now c st = Inr st'' \<and> rate_limit_window st'' c = [now]"
    by (simp add: check_rate_limit_Inr)
qed

theorem sliding_window_rate_limit_witness:
  "run_calls example_config ''default'' [1000, 1010, 1020] example_state = [True, True, False] \<and>
   (\<exists>st'. check_rate_limit example_config 1070 ''default''
            (example_state\<lparr>rate_limit_window := (\<lambda>_. [1000, 1010])\<rparr>) = Inr st' \<and>
      rate_limit_window st' ''default'' = [1070])"
proof -
  note burst = sliding_window_rate_limit
    [of example_config 0 "''default''" example_state example_state rate_limited "[]"
      example_env "''health_check''" JNull example_world 2 "[1000, 1010, 1020]",
      THEN conjunct2, THEN conjunct2, THEN conjunct2, THEN conjunct2, THEN conjunct1]
  note later = sliding_window_rate_limit
    [of example_config 1070 "''default''" "example_state\<lparr>rate_limit_window := (\<lambda>_. [1000, 1010])\<rparr>"
      example_state rate_limited "[]" example_env "''health_check''" JNull example_world 2 "[]",
      THEN conjunct2, THEN conjunct2, THEN conjunct2, THEN conjunct2, THEN conjunct2]
  have a: "run_calls example_config ''default'' [1000, 1010, 1020] example_state = [True, True, False]"
    using burst by (simp add: example_config_def example_state_def numeral_eq_Suc)
  have b: "\<exists>st'. check_rate_limit example_config 1070 ''default''
            (example_state\<lparr>rate_limit_window := (\<lambda>_. [1000, 1010])\<rparr>) = Inr st' \<and>
      rate_limit_window st' ''default'' = [1070]"
    using later by (simp add: example_config_def example_state_def)
  from a b show ?thesis by simp
qed

end
